theory Spec2Isabelle
  imports Complex_Main "HOL-Library.Sublist"
begin

section \<open>The sef interpreter: data model\<close>

text \<open>
  The development follows the three stages of the program: the tokenizer of
  \<^verbatim>\<open>token.py\<close>, the parser of \<^verbatim>\<open>parser.py\<close> and the interpreter of
  \<^verbatim>\<open>logic.py\<close>, over the node classes of \<^verbatim>\<open>nodes.py\<close>.

  Source text is a list of 8-bit characters read as the code points U+0000 to U+00FF.
  Python exceptions are values of the type \<open>error\<close>, one constructor for each
  \<^verbatim>\<open>raise\<close> of the program (told apart by their messages, since the program raises the
  plain \<^verbatim>\<open>Exception\<close> everywhere) and one for each built-in exception that the
  program can provoke.
\<close>

subsection \<open>Nodes (nodes.py)\<close>

datatype Operator = ADD | SUBTRACT | DIVIDE | MULTIPLY

text \<open>
  The node classes. \<open>ListNode\<close> is the Python list that \<^verbatim>\<open>parse_expr\<close> returns when it
  has collected more than one item. A \<^verbatim>\<open>DefinitionNode\<close> is built by
  \<^verbatim>\<open>parse_definition\<close> only, which \<^verbatim>\<open>parse\<close> alone calls: it occurs at the top level
  of the tree and never inside a body, so it is a type of its own.
\<close>

datatype node =
    StringNode string
  | IntegerNode int
  | VariableReferenceNode string
  | OperatorNode Operator
  | CallNode string "node list"
  | VariableDeclarationNode string node
  | ListNode "node list"

datatype DefinitionNode =
  DefinitionNode (name: string) (arguments: "string list") (body: node)

subsection \<open>Runtime values and errors\<close>

text \<open>
  The values that the interpreter computes with: Python integers, the floats that true
  division produces (carried as real numbers: the rounding to a double is not part of
  the model), strings, the members of the \<^verbatim>\<open>Operator\<close> enumeration (the \<^verbatim>\<open>value\<close> of an
  \<^verbatim>\<open>OperatorNode\<close>) and \<^verbatim>\<open>None\<close>.
\<close>

datatype val = VInt int | VFloat real | VStr string | VOp Operator | VNone

datatype TokenType = DEF | END | VARIABLE_DECLARATION | IDENTIFIER | INTEGER | STRING
  | OPEN_PAREN | CLOSE_PAREN | COMMA | ADD | SUBTRACT | MULTIPLY | DIVIDE

datatype token = Token (type: TokenType) (tok_value: string)

datatype error =
    NoValidTokens string
      \<comment> \<open>tokenize_next: "No valid tokens found for: ..."\<close>
  | LookingForType TokenType TokenType
      \<comment> \<open>consume: "Looking for type ... but found ..."\<close>
  | InvalidTokenType token
      \<comment> \<open>parse_expr: "Invalid token type: ..."\<close>
  | NoMainFunction
      \<comment> \<open>begin_execution: "All sef files must declare one main function with no arguments"\<close>
  | MainTakesArguments nat
      \<comment> \<open>begin_execution: "The main function takes 0 arguments, not n."\<close>
  | CouldNotFindFunction string
      \<comment> \<open>execute_item: "Could not find a function named ..."\<close>
  | WrongArgumentCount string "string list" nat
      \<comment> \<open>execute_item: "There is a function called ... but it takes ... arguments instead of n"\<close>
  | FunctionDoesNotExist string
      \<comment> \<open>call_function: "Function '...' does not exist"\<close>
  | ExpectsArguments string nat nat
      \<comment> \<open>call_function: "The function ... expects m arguments but we got n"\<close>
  | NoWayToExecute node
      \<comment> \<open>execute_item: "No way to execute: ..."\<close>
  | KeyError val
  | IndexError
  | TypeError
  | AttributeError
  | ZeroDivisionError
  | ValueError
  | UnboundLocalError
  | HostException string
      \<comment> \<open>an exception raised inside a callable of the host\<close>

section \<open>The tokenizer (token.py)\<close>

subsection \<open>Character classes\<close>

definition isspace :: "char \<Rightarrow> bool" where
  \<comment> \<open>\<^verbatim>\<open>str.isspace\<close> and the class \<^verbatim>\<open>\s\<close> of a \<^verbatim>\<open>str\<close> pattern, below U+0100\<close>
  "isspace c = (let n = (of_char c :: nat) in
     (9 \<le> n \<and> n \<le> 13) \<or> (28 \<le> n \<and> n \<le> 32) \<or> n = 133 \<or> n = 160)"

definition is_letter :: "char \<Rightarrow> bool" where
  \<comment> \<open>\<^verbatim>\<open>[a-zA-Z_]\<close>\<close>
  "is_letter c = (let n = (of_char c :: nat) in
     (97 \<le> n \<and> n \<le> 122) \<or> (65 \<le> n \<and> n \<le> 90) \<or> n = 95)"

definition is_digit :: "char \<Rightarrow> bool" where
  \<comment> \<open>\<^verbatim>\<open>[0-9]\<close>\<close>
  "is_digit c = (let n = (of_char c :: nat) in 48 \<le> n \<and> n \<le> 57)"

definition is_word :: "char \<Rightarrow> bool" where
  \<comment> \<open>the class \<^verbatim>\<open>\w\<close> of a \<^verbatim>\<open>str\<close> pattern, below U+0100: alphanumeric or underscore\<close>
  "is_word c = (is_letter c \<or> is_digit c \<or> (let n = (of_char c :: nat) in
     n = 170 \<or> n = 178 \<or> n = 179 \<or> n = 181 \<or> n = 185 \<or> n = 186 \<or>
     (188 \<le> n \<and> n \<le> 190) \<or> (192 \<le> n \<and> n \<le> 214) \<or> (216 \<le> n \<and> n \<le> 246) \<or>
     248 \<le> n))"

definition is_quote :: "char \<Rightarrow> bool" where
  \<comment> \<open>\<^verbatim>\<open>['\"]\<close>\<close>
  "is_quote c = (c = CHR 0x27 \<or> c = CHR 0x22)"

definition newline :: char where
  "newline = CHR 0x0A"

definition lstrip :: "string \<Rightarrow> string" where
  "lstrip code = dropWhile isspace code"

subsection \<open>The token patterns\<close>

text \<open>
  Each pattern of \<^verbatim>\<open>TOKENS\<close> is a function from the remaining code to the text it
  matches at the start of the code, if it matches (\<^verbatim>\<open>tokenize_next\<close> anchors every
  pattern with \<^verbatim>\<open>\A\<close>). The code is the sliced remainder, so a leading \<^verbatim>\<open>\b\<close> stands at
  the start of the string and holds as soon as the first character is a word character.
  None of the patterns has a second way to match: a shorter run of a greedy class is
  followed by a character of the class, which the rest of the pattern refuses.
\<close>

definition re_def :: "string \<Rightarrow> string option" where
  \<comment> \<open>\<^verbatim>\<open>\bdef \b\<close>\<close>
  "re_def code =
     (if take 4 code = ''def '' \<and> (case drop 4 code of [] \<Rightarrow> False | c # _ \<Rightarrow> is_word c)
      then Some (take 4 code) else None)"

definition re_end :: "string \<Rightarrow> string option" where
  \<comment> \<open>\<^verbatim>\<open>\bend\b\<close>\<close>
  "re_end code =
     (if take 3 code = ''end'' \<and> (case drop 3 code of [] \<Rightarrow> True | c # _ \<Rightarrow> \<not> is_word c)
      then Some (take 3 code) else None)"

definition dot_plus_newline :: "string \<Rightarrow> (string \<times> string) option" where
  \<comment> \<open>\<^verbatim>\<open>(.+)\n\<close>: the text of the group and the text after the line break\<close>
  "dot_plus_newline s =
     (let text = takeWhile (\<lambda>c. c \<noteq> newline) s; rest = dropWhile (\<lambda>c. c \<noteq> newline) s
      in if text \<noteq> [] \<and> rest \<noteq> [] then Some (text, tl rest) else None)"

definition variable_declaration_groups :: "string \<Rightarrow> (string \<times> string \<times> string) option" where
  \<comment> \<open>\<^verbatim>\<open>\b([a-zA-Z_]+)\s?=\s?(.+)\n\<close>: group 1, group 2 and the text after the match.
      The second \<^verbatim>\<open>\s?\<close> takes a whitespace character if the rest then matches, and
      gives it back to \<^verbatim>\<open>.+\<close> otherwise.\<close>
  "variable_declaration_groups code =
     (let ident = takeWhile is_letter code; r1 = dropWhile is_letter code;
          r2 = (case r1 of [] \<Rightarrow> r1 | c # cs \<Rightarrow> if isspace c then cs else r1)
      in if ident = [] then None
         else case r2 of
             [] \<Rightarrow> None
           | e # r3 \<Rightarrow>
               if e \<noteq> CHR ''='' then None
               else (case (case r3 of [] \<Rightarrow> None
                           | c # cs \<Rightarrow> if isspace c then dot_plus_newline cs else None) of
                       Some (text, rest) \<Rightarrow> Some (ident, text, rest)
                     | None \<Rightarrow>
                         (case dot_plus_newline r3 of
                            Some (text, rest) \<Rightarrow> Some (ident, text, rest)
                          | None \<Rightarrow> None)))"

definition re_variable_declaration :: "string \<Rightarrow> string option" where
  \<comment> \<open>\<^verbatim>\<open>\b[a-zA-Z_]+\s?=\s?.+\n\<close>\<close>
  "re_variable_declaration code =
     (case variable_declaration_groups code of
        None \<Rightarrow> None
      | Some (ident, text, rest) \<Rightarrow> Some (take (length code - length rest) code))"

definition re_identifier :: "string \<Rightarrow> string option" where
  \<comment> \<open>\<^verbatim>\<open>\b[a-zA-Z_]+\b\<close>\<close>
  "re_identifier code =
     (let run = takeWhile is_letter code
      in if run \<noteq> [] \<and> (case dropWhile is_letter code of [] \<Rightarrow> True | c # _ \<Rightarrow> \<not> is_word c)
         then Some run else None)"

definition re_integer :: "string \<Rightarrow> string option" where
  \<comment> \<open>\<^verbatim>\<open>[0-9]+\<close>\<close>
  "re_integer code =
     (let run = takeWhile is_digit code in if run \<noteq> [] then Some run else None)"

definition re_string :: "string \<Rightarrow> string option" where
  \<comment> \<open>\<^verbatim>\<open>['\"][^'\"]+['\"]\<close>\<close>
  "re_string code =
     (case code of
        [] \<Rightarrow> None
      | q # cs \<Rightarrow>
          (let run = takeWhile (\<lambda>c. \<not> is_quote c) cs
           in if is_quote q \<and> run \<noteq> [] \<and> dropWhile (\<lambda>c. \<not> is_quote c) cs \<noteq> []
              then Some (take (length run + 2) code) else None))"

definition re_char :: "char \<Rightarrow> string \<Rightarrow> string option" where
  \<comment> \<open>a pattern of one escaped character, such as \<^verbatim>\<open>\(\<close>\<close>
  "re_char x code =
     (case code of [] \<Rightarrow> None | c # _ \<Rightarrow> if c = x then Some (take 1 code) else None)"

definition TOKENS :: "(TokenType \<times> (string \<Rightarrow> string option)) list" where
  "TOKENS =
     [(DEF, re_def),
      (END, re_end),
      (VARIABLE_DECLARATION, re_variable_declaration),
      (IDENTIFIER, re_identifier),
      (INTEGER, re_integer),
      (STRING, re_string),
      (OPEN_PAREN, re_char CHR ''(''),
      (CLOSE_PAREN, re_char CHR '')''),
      (COMMA, re_char CHR '',''),
      (TokenType.ADD, re_char CHR ''+''),
      (TokenType.SUBTRACT, re_char CHR ''-''),
      (TokenType.MULTIPLY, re_char CHR ''*''),
      (TokenType.DIVIDE, re_char CHR ''/'')]"

text \<open>Every pattern matches a non-empty text at the start of the code.\<close>

lemma re_def_match: "re_def code = Some v \<Longrightarrow> v \<noteq> [] \<and> prefix v code"
  by (auto simp: re_def_def take_is_prefix split: if_splits)

lemma re_end_match: "re_end code = Some v \<Longrightarrow> v \<noteq> [] \<and> prefix v code"
  by (auto simp: re_end_def take_is_prefix split: if_splits)

lemma re_identifier_match: "re_identifier code = Some v \<Longrightarrow> v \<noteq> [] \<and> prefix v code"
  by (auto simp: re_identifier_def Let_def takeWhile_is_prefix split: if_splits)

lemma re_integer_match: "re_integer code = Some v \<Longrightarrow> v \<noteq> [] \<and> prefix v code"
  by (auto simp: re_integer_def Let_def takeWhile_is_prefix split: if_splits)

lemma re_string_match: "re_string code = Some v \<Longrightarrow> v \<noteq> [] \<and> prefix v code"
  by (cases code) (auto simp: re_string_def Let_def take_is_prefix simp del: take_Suc_Cons split: if_splits)

lemma re_char_match: "re_char x code = Some v \<Longrightarrow> v \<noteq> [] \<and> prefix v code"
  by (cases code) (auto simp: re_char_def split: if_splits)

lemma dot_plus_newline_length:
  "dot_plus_newline s = Some (text, rest) \<Longrightarrow> length rest < length s"
proof -
  assume a: "dot_plus_newline s = Some (text, rest)"
  let ?d = "dropWhile (\<lambda>c. c \<noteq> newline) s"
  from a have "?d \<noteq> []" and "rest = tl ?d"
    by (auto simp: dot_plus_newline_def Let_def split: if_splits)
  then have "length rest < length ?d" by (cases ?d) auto
  also have "length ?d \<le> length s" by (rule length_dropWhile_le)
  finally show ?thesis .
qed

lemma variable_declaration_groups_length:
  assumes "variable_declaration_groups code = Some (ident, text, rest)"
  shows "length rest < length code"
proof -
  let ?r1 = "dropWhile is_letter code"
  let ?r2 = "case ?r1 of [] \<Rightarrow> ?r1 | c # cs \<Rightarrow> if isspace c then cs else ?r1"
  have r1: "length ?r1 \<le> length code" by (rule length_dropWhile_le)
  have r2: "length ?r2 \<le> length ?r1" by (simp split: list.split)
  from assms obtain e r3 where r3: "?r2 = e # r3"
    and d: "(\<exists>c cs. r3 = c # cs \<and> dot_plus_newline cs = Some (text, rest))
            \<or> dot_plus_newline r3 = Some (text, rest)"
    by (auto simp: variable_declaration_groups_def Let_def split: if_splits list.splits option.splits)
  from d have "length rest < length r3"
    by (auto dest!: dot_plus_newline_length)
  with r3 r2 r1 show ?thesis by (metis le_trans length_Cons less_Suc_eq less_le_trans)
qed

lemma re_variable_declaration_match:
  "re_variable_declaration code = Some v \<Longrightarrow> v \<noteq> [] \<and> prefix v code"
  by (auto simp: re_variable_declaration_def take_is_prefix dest!: variable_declaration_groups_length split: option.splits)

lemma TOKENS_match:
  assumes "(ty, re) \<in> set TOKENS" and "re code = Some v"
  shows "v \<noteq> [] \<and> prefix v code"
proof -
  from assms(1) consider "re = re_def" | "re = re_end" | "re = re_variable_declaration"
    | "re = re_identifier" | "re = re_integer" | "re = re_string" | x where "re = re_char x"
    by (auto simp: TOKENS_def)
  then show ?thesis
    using assms(2)
    by cases (auto dest: re_def_match re_end_match re_variable_declaration_match
        re_identifier_match re_integer_match re_string_match re_char_match)
qed

subsection \<open>The Tokenizer class\<close>

fun tokenize_next_loop ::
  "(TokenType \<times> (string \<Rightarrow> string option)) list \<Rightarrow> string \<Rightarrow> error + token \<times> string" where
  "tokenize_next_loop [] code = Inl (NoValidTokens code)"
| "tokenize_next_loop ((token_type, token_re) # rules) code =
     (case token_re code of
        Some v \<Rightarrow> Inr (Token token_type v, drop (length v) code)
      | None \<Rightarrow> tokenize_next_loop rules code)"

definition tokenize_next :: "string \<Rightarrow> error + token \<times> string" where
  \<comment> \<open>the token and the new \<^verbatim>\<open>self.code\<close>\<close>
  "tokenize_next code = tokenize_next_loop TOKENS code"

function tokenize_loop :: "string \<Rightarrow> token list \<Rightarrow> error + token list" where
  \<comment> \<open>the \<^verbatim>\<open>while\<close> loop of \<^verbatim>\<open>tokenize_code\<close>, on \<^verbatim>\<open>self.code\<close> and \<^verbatim>\<open>tokens\<close>\<close>
  "tokenize_loop code tokens =
     (if code = [] then Inr tokens
      else case tokenize_next code of
             Inl e \<Rightarrow> Inl e
           | Inr (tok, code') \<Rightarrow> tokenize_loop (lstrip code') (tokens @ [tok]))"
  by pat_completeness auto

lemma tokenize_next_loop_match:
  "tokenize_next_loop rules code = Inr (tok, code') \<Longrightarrow> set rules \<subseteq> set TOKENS \<Longrightarrow>
   tok_value tok \<noteq> [] \<and> code = tok_value tok @ code'"
proof (induction rules)
  case Nil
  then show ?case by simp
next
  case (Cons r rules)
  obtain ty re where r: "r = (ty, re)" by (cases r)
  show ?case
  proof (cases "re code")
    case None
    with Cons r show ?thesis by simp
  next
    case (Some v)
    from Cons.prems(2) r have "(ty, re) \<in> set TOKENS" by simp
    from TOKENS_match[OF this Some] have "v \<noteq> []" and "prefix v code" by simp_all
    then have "code = v @ drop (length v) code" by (auto simp: prefix_def)
    with Cons.prems(1) r Some \<open>v \<noteq> []\<close> show ?thesis by auto
  qed
qed

lemma tokenize_next_match:
  "tokenize_next code = Inr (tok, code') \<Longrightarrow> tok_value tok \<noteq> [] \<and> code = tok_value tok @ code'"
  using tokenize_next_loop_match[of TOKENS code tok code'] by (simp add: tokenize_next_def)

termination tokenize_loop
proof (relation "measure (\<lambda>(code, tokens). length code)")
  show "wf (measure (\<lambda>(code, tokens). length code))" by simp
next
  fix code :: string and tokens :: "token list" and x tok code'
  assume "tokenize_next code = Inr x" and "(tok, code') = x"
  then have "tokenize_next code = Inr (tok, code')" by simp
  from tokenize_next_match[OF this] have "length code' < length code"
    by (metis length_append length_greater_0_conv less_add_same_cancel2)
  moreover have "length (lstrip code') \<le> length code'"
    unfolding lstrip_def by (rule length_dropWhile_le)
  ultimately show "((lstrip code', tokens @ [tok]), (code, tokens)) \<in> measure (\<lambda>(code, tokens). length code)"
    by simp
qed

definition tokenize_code :: "string \<Rightarrow> error + token list" where
  \<comment> \<open>\<^verbatim>\<open>Tokenizer(code).tokenize_code()\<close>: the constructor strips the code on the left\<close>
  "tokenize_code code = tokenize_loop (lstrip code) []"

section \<open>The parser (parser.py)\<close>

text \<open>
  The parser removes tokens from the head of \<^verbatim>\<open>self.tokens\<close>; here every method takes
  the token list and returns its result with the list that is left. The methods that
  call each other recursively take fuel, and \<open>None\<close> says that the fuel ran out.
\<close>

definition peek :: "TokenType \<Rightarrow> nat \<Rightarrow> token list \<Rightarrow> bool" where
  \<comment> \<open>the \<^verbatim>\<open>IndexError\<close> of a read past the end is caught and gives \<^verbatim>\<open>False\<close>\<close>
  "peek expected_type offset tokens =
     (if offset < length tokens then type (tokens ! offset) = expected_type else False)"

definition consume :: "TokenType \<Rightarrow> token list \<Rightarrow> error + token \<times> token list" where
  \<comment> \<open>\<^verbatim>\<open>self.tokens.pop(0)\<close> raises \<^verbatim>\<open>IndexError\<close> on the empty list\<close>
  "consume expected_type tokens =
     (case tokens of
        [] \<Rightarrow> Inl IndexError
      | tok # rest \<Rightarrow>
          if type tok \<noteq> expected_type then Inl (LookingForType expected_type (type tok))
          else Inr (tok, rest))"

definition is_operator_next :: "token list \<Rightarrow> bool" where
  "is_operator_next tokens =
     list_ex (\<lambda>operator. peek operator 0 tokens)
       [TokenType.ADD, TokenType.SUBTRACT, TokenType.DIVIDE, TokenType.MULTIPLY]"

definition parse_variable_reference :: "token list \<Rightarrow> error + node \<times> token list" where
  "parse_variable_reference tokens =
     (case consume IDENTIFIER tokens of
        Inl e \<Rightarrow> Inl e
      | Inr (tok, rest) \<Rightarrow> Inr (VariableReferenceNode (tok_value tok), rest))"

definition parse_operator :: "token list \<Rightarrow> error + node \<times> token list" where
  \<comment> \<open>when no operator is next, \<^verbatim>\<open>type_\<close> is read before it is assigned\<close>
  "parse_operator tokens =
     (if peek TokenType.ADD 0 tokens then
        (case consume TokenType.ADD tokens of
           Inl e \<Rightarrow> Inl e | Inr (tok, rest) \<Rightarrow> Inr (OperatorNode Operator.ADD, rest))
      else if peek TokenType.SUBTRACT 0 tokens then
        (case consume TokenType.SUBTRACT tokens of
           Inl e \<Rightarrow> Inl e | Inr (tok, rest) \<Rightarrow> Inr (OperatorNode Operator.SUBTRACT, rest))
      else if peek TokenType.DIVIDE 0 tokens then
        (case consume TokenType.DIVIDE tokens of
           Inl e \<Rightarrow> Inl e | Inr (tok, rest) \<Rightarrow> Inr (OperatorNode Operator.DIVIDE, rest))
      else if peek TokenType.MULTIPLY 0 tokens then
        (case consume TokenType.MULTIPLY tokens of
           Inl e \<Rightarrow> Inl e | Inr (tok, rest) \<Rightarrow> Inr (OperatorNode Operator.MULTIPLY, rest))
      else Inl UnboundLocalError)"

definition string_group :: "string \<Rightarrow> string option" where
  \<comment> \<open>group 1 of \<^verbatim>\<open>['\"]([^'\"]+)['\"]\<close>, matched at the start of the text\<close>
  "string_group val =
     (case val of
        [] \<Rightarrow> None
      | q # cs \<Rightarrow>
          (let run = takeWhile (\<lambda>c. \<not> is_quote c) cs
           in if is_quote q \<and> run \<noteq> [] \<and> dropWhile (\<lambda>c. \<not> is_quote c) cs \<noteq> []
              then Some run else None))"

definition parse_string :: "token list \<Rightarrow> error + node \<times> token list" where
  \<comment> \<open>without a match, \<^verbatim>\<open>match.groups()\<close> is an attribute of \<^verbatim>\<open>None\<close>\<close>
  "parse_string tokens =
     (case consume STRING tokens of
        Inl e \<Rightarrow> Inl e
      | Inr (tok, rest) \<Rightarrow>
          (case string_group (tok_value tok) of
             None \<Rightarrow> Inl AttributeError
           | Some text \<Rightarrow> Inr (StringNode text, rest)))"

definition py_int :: "string \<Rightarrow> error + int" where
  \<comment> \<open>\<^verbatim>\<open>int(value)\<close> on a run of decimal digits, the only text that an \<^verbatim>\<open>INTEGER\<close> token of
      the tokenizer holds; any other text is refused here\<close>
  "py_int text =
     (if text \<noteq> [] \<and> list_all is_digit text
      then Inr (foldl (\<lambda>acc c. 10 * acc + (of_char c - 48)) 0 text)
      else Inl ValueError)"

definition parse_integer :: "token list \<Rightarrow> error + node \<times> token list" where
  "parse_integer tokens =
     (case consume INTEGER tokens of
        Inl e \<Rightarrow> Inl e
      | Inr (tok, rest) \<Rightarrow>
          (case py_int (tok_value tok) of
             Inl e \<Rightarrow> Inl e
           | Inr i \<Rightarrow> Inr (IntegerNode i, rest)))"

definition return_items :: "node list \<Rightarrow> error + node" where
  \<comment> \<open>\<^verbatim>\<open>items if len(items) > 1 else items[0]\<close>\<close>
  "return_items items =
     (if length items > 1 then Inr (ListNode items)
      else case items of [] \<Rightarrow> Inl IndexError | item # _ \<Rightarrow> Inr item)"

definition lift :: "error + 'a \<Rightarrow> (error + 'a) option" where
  \<comment> \<open>a method that needs no fuel, called from one that does\<close>
  "lift r = Some r"

definition bind :: "(error + 'a) option \<Rightarrow> ('a \<Rightarrow> (error + 'b) option) \<Rightarrow> (error + 'b) option" where
  \<comment> \<open>run the second step on the result of the first, unless the first raised or ran
      out of fuel\<close>
  "bind m f = (case m of None \<Rightarrow> None | Some (Inl e) \<Rightarrow> Some (Inl e) | Some (Inr x) \<Rightarrow> f x)"

function (sequential) parse_expr :: "nat \<Rightarrow> bool \<Rightarrow> int \<Rightarrow> token list \<Rightarrow> (error + node \<times> token list) option"
  and parse_expr_loop ::
    "nat \<Rightarrow> bool \<Rightarrow> int \<Rightarrow> nat \<Rightarrow> node list \<Rightarrow> token list \<Rightarrow> (error + node \<times> token list) option"
  and parse_variable_declaration :: "nat \<Rightarrow> token list \<Rightarrow> (error + node \<times> token list) option"
  and parse_call :: "nat \<Rightarrow> token list \<Rightarrow> (error + node \<times> token list) option"
  and parse_argument_expressions ::
    "nat \<Rightarrow> node list \<Rightarrow> token list \<Rightarrow> (error + node list \<times> token list) option"
  and parse_argument_expressions_commas ::
    "nat \<Rightarrow> node list \<Rightarrow> token list \<Rightarrow> (error + node list \<times> token list) option"
where
  "parse_expr 0 function_call n tokens = None"
| "parse_expr (Suc fuel) function_call n tokens =
     parse_expr_loop fuel function_call n (length tokens) [] tokens"
| "parse_expr_loop 0 function_call n start_len items tokens = None"
| "parse_expr_loop (Suc fuel) function_call n start_len items tokens =
     bind
       (if peek INTEGER 0 tokens then lift (parse_integer tokens)
        else if peek STRING 0 tokens then lift (parse_string tokens)
        else if is_operator_next tokens then lift (parse_operator tokens)
        else if peek IDENTIFIER 0 tokens \<and> peek OPEN_PAREN 1 tokens then parse_call fuel tokens
        else if peek VARIABLE_DECLARATION 0 tokens then parse_variable_declaration fuel tokens
        else if peek IDENTIFIER 0 tokens then lift (parse_variable_reference tokens)
        else (case tokens of
                [] \<Rightarrow> Some (Inl IndexError)
              | tok # _ \<Rightarrow> Some (Inl (InvalidTokenType tok))))
       (\<lambda>(item, tokens').
          let items' = items @ [item] in
          if int start_len - int (length tokens') = n then
            bind (lift (return_items items')) (\<lambda>r. Some (Inr (r, tokens')))
          else if (if function_call then peek COMMA 0 tokens' \<or> peek CLOSE_PAREN 0 tokens'
                   else peek END 0 tokens') then
            bind (lift (return_items items')) (\<lambda>r. Some (Inr (r, tokens')))
          else parse_expr_loop fuel function_call n start_len items' tokens')"
| "parse_variable_declaration 0 tokens = None"
| "parse_variable_declaration (Suc fuel) tokens =
     bind (lift (consume VARIABLE_DECLARATION tokens)) (\<lambda>(var_dec, rest).
       case variable_declaration_groups (tok_value var_dec) of
         None \<Rightarrow> Some (Inl AttributeError)
       | Some (ident, expression, _) \<Rightarrow>
           bind (lift (tokenize_code expression)) (\<lambda>new_tokens.
             bind (parse_expr fuel False (int (length new_tokens)) (new_tokens @ rest))
               (\<lambda>(body, tokens'). Some (Inr (VariableDeclarationNode ident body, tokens')))))"
| "parse_call 0 tokens = None"
| "parse_call (Suc fuel) tokens =
     bind (lift (consume IDENTIFIER tokens)) (\<lambda>(ident, tokens1).
       bind (lift (consume OPEN_PAREN tokens1)) (\<lambda>(_, tokens2).
         bind (parse_argument_expressions fuel [] tokens2) (\<lambda>(argument_expressions, tokens3).
           bind (lift (consume CLOSE_PAREN tokens3)) (\<lambda>(_, tokens4).
             Some (Inr (CallNode (tok_value ident) argument_expressions, tokens4))))))"
| "parse_argument_expressions 0 expressions tokens = None"
| "parse_argument_expressions (Suc fuel) expressions tokens =
     (if \<not> peek CLOSE_PAREN 0 tokens then
        bind (parse_expr fuel True (- 1) tokens) (\<lambda>(expression, tokens').
          parse_argument_expressions_commas fuel (expressions @ [expression]) tokens')
      else Some (Inr (expressions, tokens)))"
| "parse_argument_expressions_commas 0 expressions tokens = None"
| "parse_argument_expressions_commas (Suc fuel) expressions tokens =
     (if peek COMMA 0 tokens then
        bind (lift (consume COMMA tokens)) (\<lambda>(_, tokens1).
          bind (parse_expr fuel True (- 1) tokens1) (\<lambda>(expression, tokens').
            parse_argument_expressions_commas fuel (expressions @ [expression]) tokens'))
      else parse_argument_expressions fuel expressions tokens)"

  by pat_completeness auto

termination parse_expr
  by (relation "measure (case_sum (case_sum fst (case_sum fst fst))
                                  (case_sum fst (case_sum fst fst)))") auto


lemma consume_length:
  "consume expected_type tokens = Inr (tok, rest) \<Longrightarrow> length rest < length tokens"
  by (auto simp: consume_def split: list.splits if_splits)

function parse_argument_names_loop ::
  "string list \<Rightarrow> token list \<Rightarrow> error + string list \<times> token list" where
  \<comment> \<open>the \<^verbatim>\<open>while\<close> loop of \<^verbatim>\<open>parse_argument_names\<close>\<close>
  "parse_argument_names_loop arg_names tokens =
     (if peek COMMA 0 tokens then
        (case consume COMMA tokens of
           Inl e \<Rightarrow> Inl e
         | Inr (comma, tokens1) \<Rightarrow>
             (case consume IDENTIFIER tokens1 of
                Inl e \<Rightarrow> Inl e
              | Inr (ident, tokens2) \<Rightarrow>
                  parse_argument_names_loop (arg_names @ [tok_value ident]) tokens2))
      else Inr (arg_names, tokens))"
  by pat_completeness auto

termination parse_argument_names_loop
proof (relation "measure (\<lambda>(arg_names, tokens). length tokens)")
  show "wf (measure (\<lambda>(arg_names, tokens). length tokens))" by simp
next
  fix arg_names :: "string list" and tokens tokens1 tokens2 :: "token list"
    and x comma y ident
  assume "consume COMMA tokens = Inr x" and "(comma, tokens1) = x"
    and "consume IDENTIFIER tokens1 = Inr y" and "(ident, tokens2) = y"
  then have "length tokens1 < length tokens" and "length tokens2 < length tokens1"
    by (auto dest: consume_length)
  then show "((arg_names @ [tok_value ident], tokens2), (arg_names, tokens))
             \<in> measure (\<lambda>(arg_names, tokens). length tokens)"
    by simp
qed

definition parse_argument_names :: "token list \<Rightarrow> error + string list \<times> token list" where
  "parse_argument_names tokens =
     (case consume OPEN_PAREN tokens of
        Inl e \<Rightarrow> Inl e
      | Inr (paren, tokens1) \<Rightarrow>
          (case (if peek IDENTIFIER 0 tokens1 then
                   (case consume IDENTIFIER tokens1 of
                      Inl e \<Rightarrow> Inl e
                    | Inr (ident, tokens2) \<Rightarrow> parse_argument_names_loop [tok_value ident] tokens2)
                 else Inr ([], tokens1)) of
             Inl e \<Rightarrow> Inl e
           | Inr (arg_names, tokens3) \<Rightarrow>
               (case consume CLOSE_PAREN tokens3 of
                  Inl e \<Rightarrow> Inl e
                | Inr (paren', tokens4) \<Rightarrow> Inr (arg_names, tokens4))))"

definition parse_definition ::
  "nat \<Rightarrow> token list \<Rightarrow> (error + DefinitionNode \<times> token list) option" where
  "parse_definition fuel tokens =
     bind (lift (consume DEF tokens)) (\<lambda>(def, tokens1).
       bind (lift (consume IDENTIFIER tokens1)) (\<lambda>(ident, tokens2).
         bind (lift (parse_argument_names tokens2)) (\<lambda>(arg_names, tokens3).
           bind (parse_expr fuel False (- 1) tokens3) (\<lambda>(expr, tokens4).
             bind (lift (consume END tokens4)) (\<lambda>(end_token, tokens5).
               Some (Inr (DefinitionNode (tok_value ident) arg_names expr, tokens5)))))))"

fun parse_loop ::
  "nat \<Rightarrow> DefinitionNode list \<Rightarrow> token list \<Rightarrow> (error + DefinitionNode list \<times> token list) option"
where
  \<comment> \<open>the \<^verbatim>\<open>while\<close> loop of \<^verbatim>\<open>parse\<close>\<close>
  "parse_loop 0 definitions tokens = None"
| "parse_loop (Suc fuel) definitions tokens =
     (if peek DEF 0 tokens then
        bind (parse_definition fuel tokens) (\<lambda>(definition_node, tokens').
          parse_loop fuel (definitions @ [definition_node]) tokens')
      else Some (Inr (definitions, tokens)))"

definition parse :: "nat \<Rightarrow> token list \<Rightarrow> (error + DefinitionNode list \<times> token list) option" where
  \<comment> \<open>the definitions, and the tokens that \<^verbatim>\<open>parse\<close> leaves in \<^verbatim>\<open>self.tokens\<close>\<close>
  "parse fuel tokens = parse_loop fuel [] tokens"

section \<open>The interpreter (logic.py)\<close>

text \<open>
  \<open>variables\<close> is the dictionary of one invocation, \<open>functions\<close> is \<^verbatim>\<open>self.functions\<close>.
  \<open>builtins\<close> is \<^verbatim>\<open>__builtins__\<close>, the callables of the host by name (a name that is
  bound to something that is not callable is absent here). A callable of the host takes
  the evaluated arguments and the state \<open>'w\<close> of the world outside the interpreter (what
  was printed, what is left to read), and gives its result, or the text of the exception
  that it raises, together with the new state. An exception of the host is a
  \<open>HostException\<close>: the errors of the model are told apart by the place that raises them.

  A method of the interpreter takes the state of the world and returns its result or
  its exception with the new state; \<open>None\<close> says that the fuel ran out, which is how the
  model renders a recursion that does not end.
\<close>

type_synonym variables = "string \<rightharpoonup> val"

type_synonym function_table = "string \<rightharpoonup> DefinitionNode"

type_synonym 'w builtins = "string \<rightharpoonup> (val list \<Rightarrow> 'w \<Rightarrow> (string + val) \<times> 'w)"

type_synonym ('a, 'w) run = "((error + 'a) \<times> 'w) option"

definition raise :: "error \<Rightarrow> 'w \<Rightarrow> ('a, 'w) run" where
  "raise e w = Some (Inl e, w)"

definition ret :: "'a \<Rightarrow> 'w \<Rightarrow> ('a, 'w) run" where
  "ret x w = Some (Inr x, w)"

definition bindw :: "('a, 'w) run \<Rightarrow> ('a \<Rightarrow> 'w \<Rightarrow> ('b, 'w) run) \<Rightarrow> ('b, 'w) run" where
  "bindw m f =
     (case m of None \<Rightarrow> None | Some (Inl e, w) \<Rightarrow> Some (Inl e, w) | Some (Inr x, w) \<Rightarrow> f x w)"

definition host_call ::
  "(val list \<Rightarrow> 'w \<Rightarrow> (string + val) \<times> 'w) \<Rightarrow> val list \<Rightarrow> 'w \<Rightarrow> (val, 'w) run" where
  \<comment> \<open>\<^verbatim>\<open>function(*arguments)\<close> on a callable of the host\<close>
  "host_call function args w =
     (case function args w of
        (Inl message, w') \<Rightarrow> raise (HostException message) w'
      | (Inr v, w') \<Rightarrow> ret v w')"

subsection \<open>Python operators on the values\<close>

fun py_add :: "val \<Rightarrow> val \<Rightarrow> error + val" where
  "py_add (VInt a) (VInt b) = Inr (VInt (a + b))"
| "py_add (VInt a) (VFloat b) = Inr (VFloat (real_of_int a + b))"
| "py_add (VFloat a) (VInt b) = Inr (VFloat (a + real_of_int b))"
| "py_add (VFloat a) (VFloat b) = Inr (VFloat (a + b))"
| "py_add (VStr a) (VStr b) = Inr (VStr (a @ b))"
| "py_add a b = Inl TypeError"

fun py_sub :: "val \<Rightarrow> val \<Rightarrow> error + val" where
  "py_sub (VInt a) (VInt b) = Inr (VInt (a - b))"
| "py_sub (VInt a) (VFloat b) = Inr (VFloat (real_of_int a - b))"
| "py_sub (VFloat a) (VInt b) = Inr (VFloat (a - real_of_int b))"
| "py_sub (VFloat a) (VFloat b) = Inr (VFloat (a - b))"
| "py_sub a b = Inl TypeError"

fun py_mul :: "val \<Rightarrow> val \<Rightarrow> error + val" where
  "py_mul (VInt a) (VInt b) = Inr (VInt (a * b))"
| "py_mul (VInt a) (VFloat b) = Inr (VFloat (real_of_int a * b))"
| "py_mul (VFloat a) (VInt b) = Inr (VFloat (a * real_of_int b))"
| "py_mul (VFloat a) (VFloat b) = Inr (VFloat (a * b))"
| "py_mul (VStr a) (VInt b) = Inr (VStr (concat (replicate (nat b) a)))"
| "py_mul (VInt a) (VStr b) = Inr (VStr (concat (replicate (nat a) b)))"
| "py_mul a b = Inl TypeError"

fun py_truediv :: "val \<Rightarrow> val \<Rightarrow> error + val" where
  "py_truediv (VInt a) (VInt b) =
     (if b = 0 then Inl ZeroDivisionError else Inr (VFloat (real_of_int a / real_of_int b)))"
| "py_truediv (VInt a) (VFloat b) =
     (if b = 0 then Inl ZeroDivisionError else Inr (VFloat (real_of_int a / b)))"
| "py_truediv (VFloat a) (VInt b) =
     (if b = 0 then Inl ZeroDivisionError else Inr (VFloat (a / real_of_int b)))"
| "py_truediv (VFloat a) (VFloat b) =
     (if b = 0 then Inl ZeroDivisionError else Inr (VFloat (a / b)))"
| "py_truediv a b = Inl TypeError"

fun truthy :: "val \<Rightarrow> bool" where
  \<comment> \<open>the truth value that \<^verbatim>\<open>if value:\<close> tests; a member of a plain \<^verbatim>\<open>Enum\<close> is true\<close>
  "truthy (VInt i) = (i \<noteq> 0)"
| "truthy (VFloat r) = (r \<noteq> 0)"
| "truthy (VStr s) = (s \<noteq> [])"
| "truthy (VOp operator) = True"
| "truthy VNone = False"

subsection \<open>Arithmetic\<close>

fun node_value :: "node \<Rightarrow> error + val" where
  \<comment> \<open>the attribute \<^verbatim>\<open>value\<close>, which the classes of \<^verbatim>\<open>ExpressionNode\<close> have\<close>
  "node_value (StringNode v) = Inr (VStr v)"
| "node_value (IntegerNode v) = Inr (VInt v)"
| "node_value (VariableReferenceNode v) = Inr (VStr v)"
| "node_value (OperatorNode v) = Inr (VOp v)"
| "node_value item = Inl AttributeError"

fun operators :: "Operator \<Rightarrow> val \<Rightarrow> val \<Rightarrow> error + val" where
  "operators Operator.ADD = py_add"
| "operators Operator.SUBTRACT = py_sub"
| "operators Operator.MULTIPLY = py_mul"
| "operators Operator.DIVIDE = py_truediv"

definition operator_node_to_function :: "node \<Rightarrow> error + (val \<Rightarrow> val \<Rightarrow> error + val)" where
  \<comment> \<open>\<^verbatim>\<open>operators[op_node.value]\<close>: a value that is no member of \<^verbatim>\<open>Operator\<close> is no key\<close>
  "operator_node_to_function op_node =
     (case node_value op_node of
        Inl e \<Rightarrow> Inl e
      | Inr (VOp operator) \<Rightarrow> Inr (operators operator)
      | Inr v \<Rightarrow> Inl (KeyError v))"

definition operand :: "node \<Rightarrow> variables \<Rightarrow> error + val" where
  \<comment> \<open>a variable reference is looked up, any other node gives its \<^verbatim>\<open>value\<close>\<close>
  "operand item variables =
     (case item of
        VariableReferenceNode v \<Rightarrow>
          (case variables v of None \<Rightarrow> Inl (KeyError (VStr v)) | Some x \<Rightarrow> Inr x)
      | _ \<Rightarrow> node_value item)"

fun execute_math_loop :: "val \<Rightarrow> node list \<Rightarrow> variables \<Rightarrow> error + val" where
  \<comment> \<open>the \<^verbatim>\<open>while\<close> loop of \<^verbatim>\<open>execute_math\<close>: the second \<^verbatim>\<open>pop(0)\<close> fails on a list
      that holds an operator and nothing after it\<close>
  "execute_math_loop accumulator [] variables = Inr accumulator"
| "execute_math_loop accumulator [operator] variables = Inl IndexError"
| "execute_math_loop accumulator (operator # item # expression) variables =
     (case operand item variables of
        Inl e \<Rightarrow> Inl e
      | Inr v \<Rightarrow>
          (case operator_node_to_function operator of
             Inl e \<Rightarrow> Inl e
           | Inr function \<Rightarrow>
               (case function accumulator v of
                  Inl e \<Rightarrow> Inl e
                | Inr accumulator' \<Rightarrow> execute_math_loop accumulator' expression variables)))"

definition execute_math :: "node list \<Rightarrow> variables \<Rightarrow> error + val" where
  "execute_math expression variables =
     (case expression of
        [] \<Rightarrow> Inl IndexError
      | item # expression' \<Rightarrow>
          (case operand item variables of
             Inl e \<Rightarrow> Inl e
           | Inr accumulator \<Rightarrow> execute_math_loop accumulator expression' variables))"

definition isinstance_of_list :: "node \<Rightarrow> string list \<Rightarrow> error + bool" where
  \<comment> \<open>\<^verbatim>\<open>isinstance(x, [A, B, C])\<close>: the second argument is a list, and \<^verbatim>\<open>isinstance\<close> takes
      a type, a tuple of types or a union there; for anything else it raises
      \<^verbatim>\<open>TypeError\<close>, whatever \<^verbatim>\<open>x\<close> is\<close>
  "isinstance_of_list x classes = Inl TypeError"

fun is_math_expression :: "node list \<Rightarrow> error + bool" where
  \<comment> \<open>\<^verbatim>\<open>all\<close> of the list that the comprehension builds, element by element\<close>
  "is_math_expression [] = Inr True"
| "is_math_expression (x # expression) =
     (case isinstance_of_list x
             [''VariableReferenceNode'', ''IntegerNode'', ''OperatorNode''] of
        Inl e \<Rightarrow> Inl e
      | Inr b \<Rightarrow>
          (case is_math_expression expression of
             Inl e \<Rightarrow> Inl e
           | Inr bs \<Rightarrow> Inr (b \<and> bs)))"

subsection \<open>Execution\<close>

text \<open>
  The first branch of \<^verbatim>\<open>execute_item\<close>, for a \<^verbatim>\<open>DefinitionNode\<close>, is \<^verbatim>\<open>handle_definition\<close>.
  A definition is an item of the top level only, so that branch is taken from
  \<^verbatim>\<open>begin_execution\<close> and nowhere else, and it is modelled there. \<^verbatim>\<open>begin_execution\<close> is also
  the one caller that leaves \<^verbatim>\<open>variables\<close> to its default, which a definition does not use.

  \<^verbatim>\<open>execute_math\<close> pops the list that it is given, which is the list in the tree. It is
  reached only with the empty list, since \<^verbatim>\<open>is_math_expression\<close> raises on any other, and
  it raises on that one: the tree is never changed, and the model carries no store for it.
\<close>

definition bind_arguments :: "string list \<Rightarrow> val list \<Rightarrow> variables" where
  \<comment> \<open>\<^verbatim>\<open>function_variables\<close>: a new dictionary, filled from the arguments in order\<close>
  "bind_arguments params args = foldl (\<lambda>m (p, v). m(p \<mapsto> v)) Map.empty (zip params args)"

function (sequential)
  execute_item ::
    "nat \<Rightarrow> 'w builtins \<Rightarrow> function_table \<Rightarrow> node \<Rightarrow> variables \<Rightarrow> 'w \<Rightarrow> (val \<times> variables, 'w) run"
  and execute_arguments ::
    "nat \<Rightarrow> 'w builtins \<Rightarrow> function_table \<Rightarrow> node list \<Rightarrow> val list \<Rightarrow> variables \<Rightarrow> 'w
      \<Rightarrow> (val list \<times> variables, 'w) run"
  and call_function ::
    "nat \<Rightarrow> 'w builtins \<Rightarrow> function_table \<Rightarrow> string \<Rightarrow> val list \<Rightarrow> 'w \<Rightarrow> (val, 'w) run"
  and execute_body ::
    "nat \<Rightarrow> 'w builtins \<Rightarrow> function_table \<Rightarrow> node list \<Rightarrow> variables \<Rightarrow> 'w \<Rightarrow> (val, 'w) run"
where
  "execute_item 0 builtins functions item variables w = None"
| "execute_item (Suc fuel) builtins functions (VariableDeclarationNode ident (ListNode expression))
       variables w =
     (case is_math_expression expression of
        Inl e \<Rightarrow> raise e w
      | Inr is_math \<Rightarrow>
          if is_math then
            (case execute_math expression variables of
               Inl e \<Rightarrow> raise e w
             | Inr accumulator \<Rightarrow> ret (VNone, variables(ident \<mapsto> accumulator)) w)
          else ret (VNone, variables) w)"
| "execute_item (Suc fuel) builtins functions
       (VariableDeclarationNode ident (CallNode fname arg_exprs)) variables w =
     bindw (execute_arguments fuel builtins functions arg_exprs [] variables w)
       (\<lambda>(args, variables') w'.
          bindw (call_function fuel builtins functions fname args w') (\<lambda>v.
            ret (VNone, variables'(ident \<mapsto> v))))"
| "execute_item (Suc fuel) builtins functions (VariableDeclarationNode ident expression)
       variables w =
     (case node_value expression of
        Inl e \<Rightarrow> raise e w
      | Inr v \<Rightarrow> ret (VNone, variables(ident \<mapsto> v)) w)"
| "execute_item (Suc fuel) builtins functions (CallNode fname arg_exprs) variables w =
     (case functions fname of
        None \<Rightarrow>
          (case builtins fname of
             Some function \<Rightarrow>
               bindw (execute_arguments fuel builtins functions arg_exprs [] variables w)
                 (\<lambda>(args, variables') w'.
                    bindw (host_call function args w') (\<lambda>v. ret (v, variables')))
           | None \<Rightarrow> raise (CouldNotFindFunction fname) w)
      | Some function \<Rightarrow>
          if length (arguments function) \<noteq> length arg_exprs then
            raise (WrongArgumentCount fname (arguments function) (length arg_exprs)) w
          else
            bindw (execute_arguments fuel builtins functions arg_exprs [] variables w)
              (\<lambda>(args, variables') w'.
                 bindw (call_function fuel builtins functions fname args w') (\<lambda>v.
                   ret (v, variables'))))"
| "execute_item (Suc fuel) builtins functions (VariableReferenceNode v) variables w =
     (case variables v of
        None \<Rightarrow> raise (KeyError (VStr v)) w
      | Some x \<Rightarrow> ret (x, variables) w)"
| "execute_item (Suc fuel) builtins functions (ListNode item) variables w =
     (case is_math_expression item of
        Inl e \<Rightarrow> raise e w
      | Inr is_math \<Rightarrow>
          if is_math then
            (case execute_math item variables of
               Inl e \<Rightarrow> raise e w
             | Inr v \<Rightarrow> ret (v, variables) w)
          else ret (VNone, variables) w)"
| "execute_item (Suc fuel) builtins functions item variables w =
     (case node_value item of
        Inl e \<Rightarrow> raise (NoWayToExecute item) w
      | Inr v \<Rightarrow> if truthy v then ret (v, variables) w else raise (NoWayToExecute item) w)"
| "execute_arguments 0 builtins functions arg_exprs args variables w = None"
| "execute_arguments (Suc fuel) builtins functions [] args variables w =
     ret (args, variables) w"
| "execute_arguments (Suc fuel) builtins functions (expr # arg_exprs) args variables w =
     bindw (execute_item fuel builtins functions expr variables w) (\<lambda>(v, variables') w'.
       execute_arguments fuel builtins functions arg_exprs (args @ [v]) variables' w')"
| "call_function 0 builtins functions fname args w = None"
| "call_function (Suc fuel) builtins functions fname args w =
     (case functions fname of
        None \<Rightarrow> raise (FunctionDoesNotExist fname) w
      | Some function \<Rightarrow>
          if length args \<noteq> length (arguments function) then
            raise (ExpectsArguments fname (length (arguments function)) (length args)) w
          else
            (let function_variables = bind_arguments (arguments function) args in
             case body function of
               ListNode items \<Rightarrow>
                 execute_body fuel builtins functions items function_variables w
             | item \<Rightarrow>
                 bindw (execute_item fuel builtins functions item function_variables w)
                   (\<lambda>(ret_val, variables'). ret ret_val)))"
| "execute_body 0 builtins functions items variables w = None"
| "execute_body (Suc fuel) builtins functions [] variables w = ret VNone w"
| "execute_body (Suc fuel) builtins functions (item # items) variables w =
     bindw (execute_item fuel builtins functions item variables w) (\<lambda>(ret_val, variables') w'.
       if items = [] then ret ret_val w'
       else execute_body fuel builtins functions items variables' w')"
  by pat_completeness auto

termination execute_item
  by (relation "measure (case_sum (case_sum fst fst) (case_sum fst fst))") auto

definition run_body ::
  "nat \<Rightarrow> 'w builtins \<Rightarrow> function_table \<Rightarrow> DefinitionNode \<Rightarrow> variables \<Rightarrow> 'w \<Rightarrow> (val, 'w) run"
where
  \<comment> \<open>the last step of \<^verbatim>\<open>call_function\<close> on its own: the body of a function, run in
      given variables\<close>
  "run_body fuel builtins functions function function_variables w =
     (case body function of
        ListNode items \<Rightarrow> execute_body fuel builtins functions items function_variables w
      | item \<Rightarrow>
          bindw (execute_item fuel builtins functions item function_variables w)
            (\<lambda>(ret_val, variables'). ret ret_val))"

definition handle_definition :: "function_table \<Rightarrow> DefinitionNode \<Rightarrow> function_table" where
  "handle_definition functions item = functions(name item \<mapsto> item)"

definition begin_execution ::
  "nat \<Rightarrow> 'w builtins \<Rightarrow> DefinitionNode list \<Rightarrow> 'w \<Rightarrow> (unit, 'w) run" where
  \<comment> \<open>the items of the tree are definitions, so \<^verbatim>\<open>execute_item\<close> on each of them is
      \<^verbatim>\<open>handle_definition\<close>, on the table that \<^verbatim>\<open>__init__\<close> left empty\<close>
  "begin_execution fuel builtins ast w =
     (let functions = foldl handle_definition Map.empty ast in
      case functions ''main'' of
        None \<Rightarrow> raise NoMainFunction w
      | Some main \<Rightarrow>
          if length (arguments main) > 0 then
            raise (MainTakesArguments (length (arguments main))) w
          else bindw (call_function fuel builtins functions ''main'' [] w) (\<lambda>v. ret ()))"

section \<open>The main script\<close>

definition parse_source ::
  "nat \<Rightarrow> string \<Rightarrow> (error + DefinitionNode list \<times> token list) option" where
  \<comment> \<open>the tokenizer and the parser on the contents of the file\<close>
  "parse_source fuel contents =
     (case tokenize_code contents of
        Inl e \<Rightarrow> Some (Inl e)
      | Inr tokens \<Rightarrow> parse fuel tokens)"

definition run_file :: "nat \<Rightarrow> 'w builtins \<Rightarrow> string \<Rightarrow> 'w \<Rightarrow> (unit, 'w) run" where
  \<comment> \<open>tokenizer, parser and interpreter on the contents of the file\<close>
  "run_file fuel builtins contents w =
     (case parse_source fuel contents of
        None \<Rightarrow> None
      | Some (Inl e) \<Rightarrow> raise e w
      | Some (Inr (ast, tokens')) \<Rightarrow> begin_execution fuel builtins ast w)"

section \<open>Notions for the properties\<close>

subsection \<open>Texts and programs\<close>

definition remove_whitespace :: "string \<Rightarrow> string" where
  \<comment> \<open>a text without its whitespace characters\<close>
  "remove_whitespace text = filter (\<lambda>c. \<not> isspace c) text"

definition join_tokens :: "string \<Rightarrow> token list \<Rightarrow> string" where
  \<comment> \<open>the raw texts of the tokens in order, the separator after each of them\<close>
  "join_tokens sep tokens = concat (map (\<lambda>tok. tok_value tok @ sep) tokens)"

definition program_assign :: string where
  \<comment> \<open>\<^verbatim>\<open>def main()\n  x = 2 + 3\n  x\nend\<close>\<close>
  "program_assign =
     ''def main()'' @ [newline] @ ''  x = 2 + 3'' @ [newline] @ ''  x'' @ [newline] @ ''end''"

definition program_empty_body :: string where
  \<comment> \<open>\<^verbatim>\<open>def f()\nend\<close>\<close>
  "program_empty_body = ''def f()'' @ [newline] @ ''end''"

definition program_short_assignment :: string where
  \<comment> \<open>\<^verbatim>\<open>def main()\n x = 1 end\nend\<close>\<close>
  "program_short_assignment =
     ''def main()'' @ [newline] @ '' x = 1 end'' @ [newline] @ ''end''"

definition program_blank_assignment :: string where
  \<comment> \<open>\<^verbatim>\<open>def main()\n x =  \n 5\nend\<close>, two spaces after the equals sign\<close>
  "program_blank_assignment =
     ''def main()'' @ [newline] @ '' x =  '' @ [newline] @ '' 5'' @ [newline] @ ''end''"

definition program_arithmetic :: string where
  \<comment> \<open>\<^verbatim>\<open>def main()\n x = 2 + 3 * 4\nend\<close>\<close>
  "program_arithmetic = ''def main()'' @ [newline] @ '' x = 2 + 3 * 4'' @ [newline] @ ''end''"

definition program_print_zero :: string where
  \<comment> \<open>\<^verbatim>\<open>def main()\n print(0)\nend\<close>\<close>
  "program_print_zero = ''def main()'' @ [newline] @ '' print(0)'' @ [newline] @ ''end''"

definition program_assign_len :: string where
  \<comment> \<open>\<^verbatim>\<open>def main()\n x = len("ab")\nend\<close>\<close>
  "program_assign_len =
     ''def main()'' @ [newline] @ '' x = len('' @ [CHR 0x22] @ ''ab'' @ [CHR 0x22] @ '')''
       @ [newline] @ ''end''"

definition program_call_len :: string where
  \<comment> \<open>\<^verbatim>\<open>def main()\n len("ab")\nend\<close>\<close>
  "program_call_len =
     ''def main()'' @ [newline] @ '' len('' @ [CHR 0x22] @ ''ab'' @ [CHR 0x22] @ '')''
       @ [newline] @ ''end''"

text \<open>
  A host for the examples. Its world is the list of what was printed, one entry for each
  call of \<^verbatim>\<open>print\<close>.
\<close>

definition host_len :: "val list \<Rightarrow> val list list \<Rightarrow> (string + val) \<times> val list list" where
  "host_len args w =
     (case args of
        [VStr s] \<Rightarrow> (Inr (VInt (int (length s))), w)
      | _ \<Rightarrow> (Inl ''TypeError'', w))"

definition host_print :: "val list \<Rightarrow> val list list \<Rightarrow> (string + val) \<times> val list list" where
  "host_print args w = (Inr VNone, w @ [args])"

definition example_builtins :: "val list list builtins" where
  "example_builtins = [''len'' \<mapsto> host_len, ''print'' \<mapsto> host_print]"

definition example_table :: function_table where
  \<comment> \<open>\<^verbatim>\<open>def f()\n x = 1\n g()\nend\<close>, \<^verbatim>\<open>def g()\n x\nend\<close> and \<^verbatim>\<open>def second(a, b)\n b\nend\<close>\<close>
  "example_table =
     [''f'' \<mapsto> DefinitionNode ''f'' []
                (ListNode [VariableDeclarationNode ''x'' (IntegerNode 1), CallNode ''g'' []]),
      ''g'' \<mapsto> DefinitionNode ''g'' [] (VariableReferenceNode ''x''),
      ''second'' \<mapsto> DefinitionNode ''second'' [''a'', ''b''] (VariableReferenceNode ''b'')]"

subsection \<open>The parser\<close>

definition parse_item :: "nat \<Rightarrow> token list \<Rightarrow> (error + node \<times> token list) option" where
  \<comment> \<open>one turn of the dispatch in the loop of \<^verbatim>\<open>parse_expr\<close>\<close>
  "parse_item fuel tokens =
     (if peek INTEGER 0 tokens then lift (parse_integer tokens)
      else if peek STRING 0 tokens then lift (parse_string tokens)
      else if is_operator_next tokens then lift (parse_operator tokens)
      else if peek IDENTIFIER 0 tokens \<and> peek OPEN_PAREN 1 tokens then parse_call fuel tokens
      else if peek VARIABLE_DECLARATION 0 tokens then parse_variable_declaration fuel tokens
      else if peek IDENTIFIER 0 tokens then lift (parse_variable_reference tokens)
      else (case tokens of
              [] \<Rightarrow> Some (Inl IndexError)
            | tok # _ \<Rightarrow> Some (Inl (InvalidTokenType tok))))"

subsection \<open>The interpreter\<close>

text \<open>The names that the specification gives to the failures of the interpreter.\<close>

fun is_MissingEntryPointError :: "error \<Rightarrow> bool" where
  "is_MissingEntryPointError NoMainFunction = True"
| "is_MissingEntryPointError (MainTakesArguments n) = True"
| "is_MissingEntryPointError e = False"

fun is_ArityError :: "error \<Rightarrow> bool" where
  "is_ArityError (WrongArgumentCount fname params n) = True"
| "is_ArityError (ExpectsArguments fname m n) = True"
| "is_ArityError e = False"

fun arity_mismatch :: "error \<Rightarrow> bool" where
  \<comment> \<open>an arity failure reports two counts that differ; it holds of every other error\<close>
  "arity_mismatch (WrongArgumentCount fname params n) = (length params \<noteq> n)"
| "arity_mismatch (ExpectsArguments fname m n) = (m \<noteq> n)"
| "arity_mismatch e = True"

definition last_definition :: "DefinitionNode list \<Rightarrow> string \<Rightarrow> DefinitionNode option" where
  \<comment> \<open>the last definition of the tree with the given name\<close>
  "last_definition ast fname =
     (case filter (\<lambda>item. name item = fname) ast of [] \<Rightarrow> None | items \<Rightarrow> Some (last items))"

definition discard :: "(val, 'w) run \<Rightarrow> (unit, 'w) run" where
  \<comment> \<open>the same run, its value dropped\<close>
  "discard r = bindw r (\<lambda>v. ret ())"

definition keep_variables ::
  "variables \<Rightarrow> (val \<times> variables, 'w) run \<Rightarrow> (val \<times> variables, 'w) run" where
  \<comment> \<open>the same run, with the given variables in place of the ones that come back\<close>
  "keep_variables variables r = bindw r (\<lambda>(v, variables'). ret (v, variables))"

fun left_fold :: "val \<Rightarrow> (Operator \<times> val) list \<Rightarrow> error + val" where
  \<comment> \<open>the fold of the specification: \<open>fold(op2, fold(op1, a1, a2), a3, ...)\<close>, strictly from
      the left, stopping at the first operation that fails\<close>
  "left_fold accumulator [] = Inr accumulator"
| "left_fold accumulator ((operator, v) # steps) =
     (case operators operator accumulator v of
        Inl e \<Rightarrow> Inl e
      | Inr accumulator' \<Rightarrow> left_fold accumulator' steps)"

definition arithmetic_run :: "node \<Rightarrow> (Operator \<times> node) list \<Rightarrow> node list" where
  \<comment> \<open>a first operand, then operators and operands in turn\<close>
  "arithmetic_run a1 steps = a1 # concat (map (\<lambda>(operator, a). [OperatorNode operator, a]) steps)"

section \<open>Properties of the tokenizer\<close>

lemma remove_whitespace_lstrip: "remove_whitespace (lstrip code) = remove_whitespace code"
  unfolding remove_whitespace_def lstrip_def by (induction code) auto

lemma remove_whitespace_append:
  "remove_whitespace (a @ b) = remove_whitespace a @ remove_whitespace b"
  by (simp add: remove_whitespace_def)

lemma remove_whitespace_sep: "list_all isspace sep \<Longrightarrow> remove_whitespace sep = []"
  by (induction sep) (auto simp: remove_whitespace_def)

lemma join_tokens_snoc:
  "join_tokens sep (tokens @ [tok]) = join_tokens sep tokens @ tok_value tok @ sep"
  by (simp add: join_tokens_def)

lemma join_tokens_Nil: "remove_whitespace (join_tokens sep []) = []"
  by (simp add: join_tokens_def remove_whitespace_def)

lemma tokenize_loop_roundtrip:
  assumes "list_all isspace sep"
  shows "tokenize_loop code acc = Inr tokens \<Longrightarrow>
     remove_whitespace (join_tokens sep tokens)
       = remove_whitespace (join_tokens sep acc) @ remove_whitespace code"
proof (induction code acc rule: tokenize_loop.induct)
  case (1 code acc)
  show ?case
  proof (cases "code = []")
    case True
    with "1.prems" show ?thesis by (simp add: remove_whitespace_def)
  next
    case False
    with "1.prems" obtain tok code' where
      nxt: "tokenize_next code = Inr (tok, code')" and
      run: "tokenize_loop (lstrip code') (acc @ [tok]) = Inr tokens"
      by (auto split: sum.splits)
    from tokenize_next_match[OF nxt] have code: "code = tok_value tok @ code'" by simp
    from "1.IH"[OF False nxt refl run]
    have "remove_whitespace (join_tokens sep tokens)
          = remove_whitespace (join_tokens sep (acc @ [tok]))
            @ remove_whitespace (lstrip code')" .
    also have "\<dots> = remove_whitespace (join_tokens sep acc)
                 @ remove_whitespace (tok_value tok @ code')"
      by (simp add: join_tokens_snoc remove_whitespace_append remove_whitespace_lstrip
          remove_whitespace_sep[OF assms])
    finally show ?thesis using code by simp
  qed
qed

text \<open>
  Claim C8. When the tokenizer accepts a source text, the raw texts of its tokens, joined
  in order with any whitespace (or none) put in after each token, are the source text up
  to whitespace: the two texts are equal once every whitespace character is taken out
  of both.
\<close>

theorem lexer_roundtrip:
  assumes "tokenize_code code = Inr tokens" and "list_all isspace sep"
  shows "remove_whitespace (join_tokens sep tokens) = remove_whitespace code"
proof -
  from assms(1) have "tokenize_loop (lstrip code) [] = Inr tokens"
    by (simp only: tokenize_code_def)
  from tokenize_loop_roundtrip[OF assms(2) this] show ?thesis
    by (simp only: join_tokens_Nil remove_whitespace_lstrip append_Nil)
qed

theorem lexer_roundtrip_witness:
  "tokenize_code program_assign =
     Inr [Token DEF ''def '', Token IDENTIFIER ''main'', Token OPEN_PAREN ''('',
          Token CLOSE_PAREN '')'', Token VARIABLE_DECLARATION (''x = 2 + 3'' @ [newline]),
          Token IDENTIFIER ''x'', Token END ''end'']
   \<and> list_all isspace '' ''
   \<and> remove_whitespace (join_tokens '' ''
         [Token DEF ''def '', Token IDENTIFIER ''main'', Token OPEN_PAREN ''('',
          Token CLOSE_PAREN '')'', Token VARIABLE_DECLARATION (''x = 2 + 3'' @ [newline]),
          Token IDENTIFIER ''x'', Token END ''end''])
       = remove_whitespace program_assign"
proof -
  have h: "tokenize_code program_assign =
     Inr [Token DEF ''def '', Token IDENTIFIER ''main'', Token OPEN_PAREN ''('',
          Token CLOSE_PAREN '')'', Token VARIABLE_DECLARATION (''x = 2 + 3'' @ [newline]),
          Token IDENTIFIER ''x'', Token END ''end'']"
    by code_simp
  have s: "list_all isspace '' ''" by (simp add: isspace_def)
  from lexer_roundtrip[OF h s] h s show ?thesis by simp
qed

section \<open>Properties of the parser\<close>

lemma bind_Some_Inr:
  "bind m f = Some (Inr y) \<Longrightarrow> \<exists>x. m = Some (Inr x) \<and> f x = Some (Inr y)"
  by (auto simp: bind_def split: option.splits sum.splits)

lemma bind_simps:
  "bind None f = None"
  "bind (Some (Inl e)) f = Some (Inl e)"
  "bind (Some (Inr x)) f = f x"
  "bind (lift (Inl e)) f = Some (Inl e)"
  "bind (lift (Inr x)) f = f x"
  by (simp_all add: bind_def lift_def)

lemma parse_integer_item: "parse_integer tokens = Inr (item, rest) \<Longrightarrow> \<exists>i. item = IntegerNode i"
  by (auto simp: parse_integer_def split: sum.splits)

lemma parse_string_item: "parse_string tokens = Inr (item, rest) \<Longrightarrow> \<exists>s. item = StringNode s"
  by (auto simp: parse_string_def split: sum.splits option.splits)

lemma parse_operator_item:
  "parse_operator tokens = Inr (item, rest) \<Longrightarrow> \<exists>operator. item = OperatorNode operator"
  by (auto simp: parse_operator_def split: sum.splits if_splits)

lemma parse_variable_reference_item:
  "parse_variable_reference tokens = Inr (item, rest) \<Longrightarrow> \<exists>v. item = VariableReferenceNode v"
  by (auto simp: parse_variable_reference_def split: sum.splits)

lemma parse_call_item:
  "parse_call fuel tokens = Some (Inr (item, rest)) \<Longrightarrow> \<exists>fname args. item = CallNode fname args"
  by (cases fuel) (auto simp: lift_def dest!: bind_Some_Inr)

lemma parse_variable_declaration_item:
  "parse_variable_declaration fuel tokens = Some (Inr (item, rest)) \<Longrightarrow>
   \<exists>ident expression. item = VariableDeclarationNode ident expression"
  by (cases fuel) (auto simp: lift_def split: option.splits dest!: bind_Some_Inr)

lemma parse_item_not_list:
  "parse_item fuel tokens = Some (Inr (item, rest)) \<Longrightarrow> item \<noteq> ListNode xs"
  by (auto simp: parse_item_def lift_def split: if_splits list.splits
      dest: parse_integer_item parse_string_item parse_operator_item
        parse_variable_reference_item parse_call_item parse_variable_declaration_item)

lemma return_items_snoc:
  "return_items (items @ [item]) = Inr r \<Longrightarrow> item \<noteq> ListNode [] \<Longrightarrow> r \<noteq> ListNode []"
  by (cases items) (auto simp: return_items_def split: if_splits)

lemma parse_expr_loop_unfold:
  "parse_expr_loop (Suc fuel) function_call n start_len items tokens =
     bind (parse_item fuel tokens)
       (\<lambda>(item, tokens').
          let items' = items @ [item] in
          if int start_len - int (length tokens') = n then
            bind (lift (return_items items')) (\<lambda>r. Some (Inr (r, tokens')))
          else if (if function_call then peek COMMA 0 tokens' \<or> peek CLOSE_PAREN 0 tokens'
                   else peek END 0 tokens') then
            bind (lift (return_items items')) (\<lambda>r. Some (Inr (r, tokens')))
          else parse_expr_loop fuel function_call n start_len items' tokens')"
  by (simp only: parse_expr_loop.simps parse_item_def)

lemma parse_expr_loop_nonempty:
  "parse_expr_loop fuel function_call n start_len items tokens = Some (Inr (r, rest)) \<Longrightarrow>
   r \<noteq> ListNode []"
proof (induction fuel arbitrary: items tokens)
  case 0
  then show ?case by simp
next
  case (Suc fuel)
  from Suc.prems[unfolded parse_expr_loop_unfold] obtain item tokens' where
    item: "parse_item fuel tokens = Some (Inr (item, tokens'))" and
    k: "(let items' = items @ [item] in
          if int start_len - int (length tokens') = n then
            bind (lift (return_items items')) (\<lambda>r. Some (Inr (r, tokens')))
          else if (if function_call then peek COMMA 0 tokens' \<or> peek CLOSE_PAREN 0 tokens'
                   else peek END 0 tokens') then
            bind (lift (return_items items')) (\<lambda>r. Some (Inr (r, tokens')))
          else parse_expr_loop fuel function_call n start_len items' tokens')
        = Some (Inr (r, rest))"
    by (auto dest!: bind_Some_Inr)
  from parse_item_not_list[OF item] have nl: "item \<noteq> ListNode []" .
  have fin: "r \<noteq> ListNode []"
    if "bind (lift (return_items (items @ [item]))) (\<lambda>r. Some (Inr (r, tokens')))
          = Some (Inr (r, rest))"
    using that nl by (auto simp: lift_def dest!: bind_Some_Inr dest: return_items_snoc)
  from k consider
      (return) "bind (lift (return_items (items @ [item]))) (\<lambda>r. Some (Inr (r, tokens')))
                  = Some (Inr (r, rest))"
    | (again) "parse_expr_loop fuel function_call n start_len (items @ [item]) tokens'
                  = Some (Inr (r, rest))"
    by (auto simp: Let_def split: if_splits)
  then show ?case
  proof cases
    case return
    then show ?thesis by (rule fin)
  next
    case again
    then show ?thesis by (rule Suc.IH)
  qed
qed

lemma parse_expr_nonempty:
  "parse_expr fuel function_call n tokens \<noteq> Some (Inr (ListNode [], rest))"
  by (cases fuel) (auto dest: parse_expr_loop_nonempty)

lemma parse_expr_END:
  "parse_expr (Suc (Suc fuel)) function_call n (Token END v # rest)
     = Some (Inl (InvalidTokenType (Token END v)))"
  by (simp add: parse_expr_loop_unfold parse_item_def peek_def is_operator_next_def bind_simps)

lemma parse_definition_END:
  assumes "parse_argument_names tokens = Inr (arg_names, Token END v # rest)"
  shows "parse_definition (Suc (Suc fuel)) (Token DEF d # Token IDENTIFIER f # tokens)
           = Some (Inl (InvalidTokenType (Token END v)))"
  using assms
  by (simp add: parse_definition_def consume_def bind_simps parse_expr_END
      del: parse_expr.simps)

text \<open>
  Claim C10. The parser of expression sequences never returns the empty sequence. A
  definition whose parameter list is followed at once by \<^verbatim>\<open>end\<close> is refused: with two
  units of fuel or more, \<^verbatim>\<open>parse_definition\<close> and \<^verbatim>\<open>parse\<close> fail at the \<^verbatim>\<open>END\<close> token with
  the parse error "Invalid token type", and build no definition.
\<close>

theorem empty_body_rejected:
  assumes "parse_argument_names tokens = Inr (arg_names, Token END v # rest)"
  shows "parse_definition (Suc (Suc fuel)) (Token DEF d # Token IDENTIFIER f # tokens)
           = Some (Inl (InvalidTokenType (Token END v)))
         \<and> parse (Suc (Suc (Suc fuel))) (Token DEF d # Token IDENTIFIER f # tokens)
           = Some (Inl (InvalidTokenType (Token END v)))
         \<and> parse_expr fuel' function_call n tokens' \<noteq> Some (Inr (ListNode [], rest'))"
proof (intro conjI)
  show d: "parse_definition (Suc (Suc fuel)) (Token DEF d # Token IDENTIFIER f # tokens)
           = Some (Inl (InvalidTokenType (Token END v)))"
    using assms by (rule parse_definition_END)
  show "parse (Suc (Suc (Suc fuel))) (Token DEF d # Token IDENTIFIER f # tokens)
           = Some (Inl (InvalidTokenType (Token END v)))"
    by (simp add: parse_def peek_def d bind_simps)
  show "parse_expr fuel' function_call n tokens' \<noteq> Some (Inr (ListNode [], rest'))"
    by (rule parse_expr_nonempty)
qed

theorem empty_body_rejected_witness:
  "parse_argument_names [Token OPEN_PAREN ''('', Token CLOSE_PAREN '')'', Token END ''end'']
     = Inr ([], [Token END ''end''])
   \<and> tokenize_code program_empty_body
     = Inr [Token DEF ''def '', Token IDENTIFIER ''f'', Token OPEN_PAREN ''('',
            Token CLOSE_PAREN '')'', Token END ''end'']
   \<and> parse (Suc (Suc (Suc 0)))
         [Token DEF ''def '', Token IDENTIFIER ''f'', Token OPEN_PAREN ''('',
          Token CLOSE_PAREN '')'', Token END ''end'']
     = Some (Inl (InvalidTokenType (Token END ''end'')))"
proof -
  have h: "parse_argument_names
             [Token OPEN_PAREN ''('', Token CLOSE_PAREN '')'', Token END ''end'']
           = Inr ([], [Token END ''end''])"
    by code_simp
  have t: "tokenize_code program_empty_body
     = Inr [Token DEF ''def '', Token IDENTIFIER ''f'', Token OPEN_PAREN ''('',
            Token CLOSE_PAREN '')'', Token END ''end'']"
    by code_simp
  from empty_body_rejected[OF h, of 0 "''def ''" "''f''"] h t show ?thesis by simp
qed

text \<open>
  Claim C9, evaluated where it fails. The text \<^verbatim>\<open>1 end\<close> of the assignment line
  \<^verbatim>\<open>x = 1 end\<close> is tokenized again into two tokens, and the bounded \<^verbatim>\<open>parse_expr\<close> stops
  at the \<^verbatim>\<open>END\<close> token after one of them: the token that is left closes the definition,
  and the program is accepted. On the line \<^verbatim>\<open>x =  \<close> the text is blank and gives no
  token, and the bounded \<^verbatim>\<open>parse_expr\<close> takes the integer of the next line.
\<close>

theorem assignment_bound_not_exact:
  "tokenize_code ''1 end'' = Inr [Token INTEGER ''1'', Token END ''end'']
   \<and> parse_variable_declaration 10
         [Token VARIABLE_DECLARATION (''x = 1 end'' @ [newline]), Token END ''end'']
     = Some (Inr (VariableDeclarationNode ''x'' (IntegerNode 1),
                  [Token END ''end'', Token END ''end'']))
   \<and> parse_source 10 program_short_assignment
     = Some (Inr ([DefinitionNode ''main'' [] (VariableDeclarationNode ''x'' (IntegerNode 1))],
                  [Token END ''end'']))
   \<and> tokenize_code '' '' = Inr []
   \<and> parse_variable_declaration 10
         [Token VARIABLE_DECLARATION (''x =  '' @ [newline]), Token INTEGER ''5'',
          Token END ''end'']
     = Some (Inr (VariableDeclarationNode ''x'' (IntegerNode 5), [Token END ''end'']))
   \<and> parse_source 10 program_blank_assignment
     = Some (Inr ([DefinitionNode ''main'' [] (VariableDeclarationNode ''x'' (IntegerNode 5))],
                  []))"
  by code_simp

section \<open>Properties of the interpreter\<close>

subsection \<open>Running and failing\<close>

lemma bindw_simps:
  "bindw None f = None"
  "bindw (Some (Inl e, w)) f = Some (Inl e, w)"
  "bindw (Some (Inr x, w)) f = f x w"
  "bindw (raise e w) f = Some (Inl e, w)"
  "bindw (ret x w) f = f x w"
  by (simp_all add: bindw_def raise_def ret_def)

lemma bindw_assoc: "bindw (bindw m f) g = bindw m (\<lambda>x w. bindw (f x w) g)"
  by (auto simp: bindw_def split: option.splits sum.splits prod.splits)


lemma bindw_Inl:
  "bindw m f = Some (Inl e, w') \<Longrightarrow>
   m = Some (Inl e, w') \<or> (\<exists>x w1. m = Some (Inr x, w1) \<and> f x w1 = Some (Inl e, w'))"
  by (auto simp: bindw_def split: option.splits sum.splits prod.splits)

lemma bindw_Some_Inr:
  "bindw m f = Some (Inr y, w') \<Longrightarrow> \<exists>x w1. m = Some (Inr x, w1) \<and> f x w1 = Some (Inr y, w')"
  by (auto simp: bindw_def split: option.splits sum.splits prod.splits)


lemma bindw_cong:
  assumes "\<And>x w1. m = Some (Inr x, w1) \<Longrightarrow> f x w1 = g x w1"
  shows "bindw m f = bindw m g"
  using assms by (auto simp: bindw_def split: option.splits sum.splits prod.splits)

lemmas run_simps = raise_def ret_def bindw_simps run_body_def bind_arguments_def
  keep_variables_def discard_def host_call_def execute_math_def operand_def
  operator_node_to_function_def isinstance_of_list_def

subsection \<open>The errors of the interpreter\<close>

text \<open>
  Every arity failure that a run ends with reports two counts that differ.
\<close>

lemma is_math_expression_error: "is_math_expression xs = Inl e \<Longrightarrow> e = TypeError"
  by (cases xs) (auto simp: isinstance_of_list_def)

lemma node_value_error: "node_value item = Inl e \<Longrightarrow> e = AttributeError"
  by (cases item) auto

lemma operand_error: "operand item variables = Inl e \<Longrightarrow> arity_mismatch e"
  by (cases item) (auto simp: operand_def split: option.splits)

lemma operator_node_to_function_error:
  "operator_node_to_function item = Inl e \<Longrightarrow> arity_mismatch e"
  by (auto simp: operator_node_to_function_def split: sum.splits val.splits dest: node_value_error)

lemma py_error:
  "py_add a b = Inl e \<Longrightarrow> arity_mismatch e"
  "py_sub a b = Inl e \<Longrightarrow> arity_mismatch e"
  "py_mul a b = Inl e \<Longrightarrow> arity_mismatch e"
  "py_truediv a b = Inl e \<Longrightarrow> arity_mismatch e"
  by (cases a; cases b; auto split: if_splits)+

lemma operators_error: "operators operator a b = Inl e \<Longrightarrow> arity_mismatch e"
  by (cases operator) (auto dest: py_error)

lemma operator_function_error:
  "operator_node_to_function item = Inr function \<Longrightarrow> function a b = Inl e \<Longrightarrow>
   arity_mismatch e"
  by (auto simp: operator_node_to_function_def split: sum.splits val.splits
      dest: operators_error)

lemma execute_math_loop_error:
  "execute_math_loop accumulator expression variables = Inl e \<Longrightarrow> arity_mismatch e"
proof (induction accumulator expression variables rule: execute_math_loop.induct)
  case (3 accumulator operator item expression variables)
  then show ?case
    by (auto split: sum.splits
        dest: operand_error operator_node_to_function_error operator_function_error)
qed auto

lemma execute_math_error: "execute_math expression variables = Inl e \<Longrightarrow> arity_mismatch e"
  by (auto simp: execute_math_def split: list.splits sum.splits
      dest: operand_error execute_math_loop_error)

lemma host_call_error: "host_call function args w = Some (Inl e, w') \<Longrightarrow> arity_mismatch e"
  by (auto simp: host_call_def raise_def ret_def split: prod.splits sum.splits)

lemma interpreter_errors:
  "(\<forall>item variables (w::'w) e w'.
      execute_item fuel builtins functions item variables w = Some (Inl e, w') \<longrightarrow> arity_mismatch e)
   \<and> (\<forall>arg_exprs args variables (w::'w) e w'.
      execute_arguments fuel builtins functions arg_exprs args variables w = Some (Inl e, w')
        \<longrightarrow> arity_mismatch e)
   \<and> (\<forall>fname args (w::'w) e w'.
      call_function fuel builtins functions fname args w = Some (Inl e, w') \<longrightarrow> arity_mismatch e)
   \<and> (\<forall>items variables (w::'w) e w'.
      execute_body fuel builtins functions items variables w = Some (Inl e, w') \<longrightarrow> arity_mismatch e)"
proof (induction fuel)
  case 0
  show ?case by simp
next
  case (Suc fuel)
  note item = Suc.IH[THEN conjunct1, rule_format]
  note args = Suc.IH[THEN conjunct2, THEN conjunct1, rule_format]
  note call = Suc.IH[THEN conjunct2, THEN conjunct2, THEN conjunct1, rule_format]
  note body = Suc.IH[THEN conjunct2, THEN conjunct2, THEN conjunct2, rule_format]
  have 1: "arity_mismatch e"
    if "execute_item (Suc fuel) builtins functions item variables w = Some (Inl e, w')"
    for item variables and w :: 'w and e w'
  proof (cases item)
    case (VariableDeclarationNode ident expression)
    with that show ?thesis
      by (cases expression)
         (auto simp: raise_def ret_def split: sum.splits if_splits
            dest!: bindw_Inl dest: is_math_expression_error execute_math_error args call)
  next
    case (CallNode fname arg_exprs)
    with that show ?thesis
      by (auto simp: raise_def ret_def split: option.splits if_splits
            dest!: bindw_Inl dest: args call host_call_error)
  next
    case (ListNode xs)
    with that show ?thesis
      by (auto simp: raise_def ret_def split: sum.splits if_splits
            dest: is_math_expression_error execute_math_error)
  qed (use that in \<open>auto simp: raise_def ret_def split: option.splits if_splits\<close>)
  have 2: "arity_mismatch e"
    if "execute_arguments (Suc fuel) builtins functions arg_exprs args0 variables w = Some (Inl e, w')"
    for arg_exprs args0 variables and w :: 'w and e w'
    using that by (cases arg_exprs) (auto simp: ret_def dest!: bindw_Inl dest: item args)
  have 3: "arity_mismatch e"
    if "call_function (Suc fuel) builtins functions fname args0 w = Some (Inl e, w')"
    for fname args0 and w :: 'w and e w'
    using that
    by (auto simp: raise_def ret_def Let_def split: option.splits if_splits node.splits
          dest!: bindw_Inl dest: item body)
  have 4: "arity_mismatch e"
    if "execute_body (Suc fuel) builtins functions items variables w = Some (Inl e, w')"
    for items variables and w :: 'w and e w'
    using that
    by (cases items) (auto simp: ret_def split: if_splits dest!: bindw_Inl dest: item body)
  from 1 2 3 4 show ?case by blast
qed

subsection \<open>Calls\<close>

lemma call_function_runs_body:
  "functions fname = Some function \<Longrightarrow> length args = length (arguments function) \<Longrightarrow>
   call_function (Suc fuel) builtins functions fname args w
     = run_body fuel builtins functions function (bind_arguments (arguments function) args) w"
  by (simp add: run_body_def Let_def)

lemma bind_arguments_Nil: "bind_arguments params [] = Map.empty"
  by (simp add: bind_arguments_def)

lemma execute_arguments_length:
  "execute_arguments fuel builtins functions arg_exprs args variables w
     = Some (Inr (args', variables'), w') \<Longrightarrow>
   length args' = length args + length arg_exprs"
proof (induction arg_exprs arbitrary: fuel args variables w)
  case Nil
  then show ?case by (cases fuel) (auto simp: ret_def)
next
  case (Cons expr arg_exprs)
  from Cons.prems obtain fuel' where fuel: "fuel = Suc fuel'" by (cases fuel) auto
  from Cons.prems[unfolded fuel] obtain v variables1 w1 where
    "execute_arguments fuel' builtins functions arg_exprs (args @ [v]) variables1 w1
       = Some (Inr (args', variables'), w')"
    by (auto dest!: bindw_Some_Inr)
  from Cons.IH[OF this] show ?case by simp
qed

lemma call_matching:
  assumes "functions fname = Some function"
    and "length arg_exprs = length (arguments function)"
  shows "execute_item (Suc (Suc fuel)) builtins functions (CallNode fname arg_exprs) variables w
     = bindw (execute_arguments (Suc fuel) builtins functions arg_exprs [] variables w)
         (\<lambda>(args, variables') w'.
            bindw (run_body fuel builtins functions function
                     (bind_arguments (arguments function) args) w')
              (\<lambda>v. ret (v, variables')))"
proof -
  have "bindw (execute_arguments (Suc fuel) builtins functions arg_exprs [] variables w)
         (\<lambda>(args, variables') w'.
            bindw (call_function (Suc fuel) builtins functions fname args w')
              (\<lambda>v. ret (v, variables')))
      = bindw (execute_arguments (Suc fuel) builtins functions arg_exprs [] variables w)
         (\<lambda>(args, variables') w'.
            bindw (run_body fuel builtins functions function
                     (bind_arguments (arguments function) args) w')
              (\<lambda>v. ret (v, variables')))"
  proof (rule bindw_cong)
    fix x w1
    assume ev: "execute_arguments (Suc fuel) builtins functions arg_exprs [] variables w
                 = Some (Inr x, w1)"
    obtain args variables' where x: "x = (args, variables')" by (cases x)
    from execute_arguments_length[OF ev[unfolded x]] assms(2)
    have "length args = length (arguments function)" by simp
    with assms(1) have eq: "call_function (Suc fuel) builtins functions fname args w1
        = run_body fuel builtins functions function (bind_arguments (arguments function) args) w1"
      by (rule call_function_runs_body)
    show "(case x of (args, variables') \<Rightarrow> \<lambda>w'.
            bindw (call_function (Suc fuel) builtins functions fname args w')
              (\<lambda>v. ret (v, variables'))) w1
        = (case x of (args, variables') \<Rightarrow> \<lambda>w'.
            bindw (run_body fuel builtins functions function
                     (bind_arguments (arguments function) args) w')
              (\<lambda>v. ret (v, variables'))) w1"
      by (simp only: x prod.case eq)
  qed
  with assms show ?thesis by simp
qed

lemma execute_item_error:
  "execute_item fuel builtins functions item variables w = Some (Inl e, w') \<Longrightarrow> arity_mismatch e"
  by (rule interpreter_errors[THEN conjunct1, rule_format])

lemma call_function_error:
  "call_function fuel builtins functions fname args w = Some (Inl e, w') \<Longrightarrow> arity_mismatch e"
  by (rule interpreter_errors[THEN conjunct2, THEN conjunct2, THEN conjunct1, rule_format])

lemma bind_arguments_map_of:
  "bind_arguments params args = map_of (rev (zip params args))"
proof -
  have "foldl (\<lambda>m (p, v). m(p \<mapsto> v)) m0 ps = m0 ++ map_of (rev ps)"
    for m0 :: variables and ps
  proof (induction ps arbitrary: m0)
    case Nil
    show ?case by simp
  next
    case (Cons pv ps)
    obtain p v where pv: "pv = (p, v)" by (cases pv)
    have "foldl (\<lambda>m (p, v). m(p \<mapsto> v)) (m0(p \<mapsto> v)) ps = m0(p \<mapsto> v) ++ map_of (rev ps)"
      by (rule Cons.IH)
    also have "m0(p \<mapsto> v) ++ map_of (rev ps) = (m0 ++ [p \<mapsto> v]) ++ map_of (rev ps)"
      by simp
    also have "\<dots> = m0 ++ ([p \<mapsto> v] ++ map_of (rev ps))" by simp
    also have "[p \<mapsto> v] ++ map_of (rev ps) = map_of (rev ps @ [(p, v)])" by simp
    finally show ?case by (simp add: pv)
  qed
  from this[of Map.empty "zip params args"] show ?thesis
    by (simp add: bind_arguments_def)
qed

lemma dom_bind_arguments:
  "length args = length params \<Longrightarrow> dom (bind_arguments params args) = set params"
proof -
  assume "length args = length params"
  then have "map fst (zip params args) = params" by simp
  then have "fst ` set (zip params args) = set params" by (metis list.set_map)
  then show ?thesis by (simp add: bind_arguments_map_of dom_map_of_conv_image_fst)
qed

lemma execute_arguments_Nil:
  "execute_arguments fuel builtins functions [] args variables w
     = (case fuel of 0 \<Rightarrow> None | Suc fuel' \<Rightarrow> Some (Inr (args, variables), w))"
  by (cases fuel) (simp_all add: ret_def)

lemma call_without_arguments:
  "execute_item fuel builtins functions (CallNode g []) variables w
     = keep_variables variables (execute_item fuel builtins functions (CallNode g []) Map.empty w)"
proof (cases fuel)
  case 0
  then show ?thesis by (simp add: keep_variables_def bindw_simps)
next
  case (Suc fuel')
  have eq: "execute_item (Suc fuel') builtins functions (CallNode g []) vars w
      = (case functions g of
           None \<Rightarrow>
             (case builtins g of
                Some function \<Rightarrow>
                  (case fuel' of 0 \<Rightarrow> None
                   | Suc k \<Rightarrow> bindw (host_call function [] w) (\<lambda>v. ret (v, vars)))
              | None \<Rightarrow> Some (Inl (CouldNotFindFunction g), w))
         | Some function \<Rightarrow>
             if length (arguments function) \<noteq> 0
             then Some (Inl (WrongArgumentCount g (arguments function) 0), w)
             else (case fuel' of 0 \<Rightarrow> None
                   | Suc k \<Rightarrow> bindw (call_function fuel' builtins functions g [] w)
                               (\<lambda>v. ret (v, vars))))" for vars
    by (simp add: execute_arguments_Nil bindw_simps raise_def
        split: option.splits nat.splits del: call_function.simps)
  show ?thesis
    unfolding Suc eq keep_variables_def
    by (simp add: bindw_simps bindw_assoc split: option.splits nat.splits del: call_function.simps)
qed


subsection \<open>The entry point\<close>

lemma registered_lookup:
  "foldl handle_definition table ast fname =
     (case last_definition ast fname of None \<Rightarrow> table fname | Some item \<Rightarrow> Some item)"
proof (induction ast arbitrary: table)
  case Nil
  show ?case by (simp add: last_definition_def)
next
  case (Cons item ast)
  show ?case
    by (simp add: Cons.IH[of "handle_definition table item"])
       (auto simp: last_definition_def handle_definition_def split: list.splits)
qed

text \<open>
  Claim C4. After the definitions are registered, \<^verbatim>\<open>begin_execution\<close> looks at the last
  definition named \<^verbatim>\<open>main\<close>. When there is none, or when it has a parameter, the run fails
  at once, whatever the fuel and with the world as it was (nothing of the program has
  run), with a failure that is a missing entry point and not an arity failure of a call.
  Otherwise the body of \<^verbatim>\<open>main\<close> runs in empty variables and its value is dropped.
\<close>

theorem entry_point:
  "begin_execution fuel builtins ast w =
     (case last_definition ast ''main'' of
        None \<Rightarrow> Some (Inl NoMainFunction, w)
      | Some main \<Rightarrow>
          if arguments main \<noteq> []
          then Some (Inl (MainTakesArguments (length (arguments main))), w)
          else discard (case fuel of
                          0 \<Rightarrow> None
                        | Suc fuel' \<Rightarrow>
                            run_body fuel' builtins (foldl handle_definition Map.empty ast) main
                              Map.empty w))
   \<and> is_MissingEntryPointError NoMainFunction \<and> \<not> is_ArityError NoMainFunction
   \<and> is_MissingEntryPointError (MainTakesArguments n) \<and> \<not> is_ArityError (MainTakesArguments n)"
proof -
  let ?functions = "foldl handle_definition Map.empty ast"
  have look: "?functions ''main'' = last_definition ast ''main''"
    by (simp add: registered_lookup split: option.splits)
  show ?thesis
  proof (cases "last_definition ast ''main''")
    case None
    with look show ?thesis by (simp add: begin_execution_def raise_def)
  next
    case (Some main)
    show ?thesis
    proof (cases "arguments main = []")
      case False
      with Some look show ?thesis by (simp add: begin_execution_def raise_def)
    next
      case True
      show ?thesis
      proof (cases fuel)
        case 0
        with Some look True show ?thesis
          by (simp add: begin_execution_def discard_def)
      next
        case (Suc fuel')
        from look Some have f: "?functions ''main'' = Some main" by simp
        from True have l: "length ([]::val list) = length (arguments main)" by simp
        from call_function_runs_body[of ?functions "''main''" main "[]" fuel' builtins w, OF f l]
        have "call_function (Suc fuel') builtins ?functions ''main'' [] w
              = run_body fuel' builtins ?functions main Map.empty w"
          by (simp add: bind_arguments_Nil)
        with Some look True Suc show ?thesis
          by (simp add: begin_execution_def discard_def Let_def del: call_function.simps)
      qed
    qed
  qed
qed

theorem entry_point_witness:
  "begin_execution 5 example_builtins [DefinitionNode ''f'' [] (IntegerNode 1)] []
     = Some (Inl NoMainFunction, [])
   \<and> begin_execution 5 example_builtins
        [DefinitionNode ''main'' [''a''] (IntegerNode 1), DefinitionNode ''f'' [] (IntegerNode 1)] []
     = Some (Inl (MainTakesArguments 1), [])
   \<and> begin_execution 5 example_builtins
        [DefinitionNode ''main'' [] (CallNode ''print'' [IntegerNode 1])] []
     = Some (Inr (), [[VInt 1]])"
proof -
  have 1: "last_definition [DefinitionNode ''f'' [] (IntegerNode 1)] ''main'' = None"
    by (simp add: last_definition_def)
  have 2: "last_definition
        [DefinitionNode ''main'' [''a''] (IntegerNode 1), DefinitionNode ''f'' [] (IntegerNode 1)]
        ''main'' = Some (DefinitionNode ''main'' [''a''] (IntegerNode 1))"
    by (simp add: last_definition_def)
  have 3: "last_definition [DefinitionNode ''main'' [] (CallNode ''print'' [IntegerNode 1])]
        ''main'' = Some (DefinitionNode ''main'' [] (CallNode ''print'' [IntegerNode 1]))"
    by (simp add: last_definition_def)
  from entry_point[of 5 example_builtins "[DefinitionNode ''f'' [] (IntegerNode 1)]" "[]" 0]
    entry_point[of 5 example_builtins
      "[DefinitionNode ''main'' [''a''] (IntegerNode 1), DefinitionNode ''f'' [] (IntegerNode 1)]"
      "[]" 0]
    entry_point[of 5 example_builtins
      "[DefinitionNode ''main'' [] (CallNode ''print'' [IntegerNode 1])]" "[]" 0]
  show ?thesis
    by (simp add: 1 2 3 run_simps handle_definition_def example_builtins_def host_print_def
        eval_nat_numeral)
qed

subsection \<open>Arity\<close>

text \<open>
  Claim C5. Let \<open>fname\<close> be a function of the table. A call of it with a number of
  arguments that differs from the number of its parameters fails with an arity failure:
  in \<^verbatim>\<open>execute_item\<close> before any argument is evaluated, in \<^verbatim>\<open>call_function\<close> on the evaluated
  arguments. With the same number, the arguments are evaluated, the body runs in the
  variables made of the parameters, and the outcome of the call is the outcome of that:
  it is never the arity failure of this call (this name with these counts). An arity
  failure that comes out of the arguments or the body is the failure of a call in there,
  with counts of its own that differ.
\<close>

theorem arity_enforcement:
  assumes "functions fname = Some function"
  shows
    "(length arg_exprs \<noteq> length (arguments function) \<longrightarrow>
        execute_item (Suc fuel) builtins functions (CallNode fname arg_exprs) variables w
          = Some (Inl (WrongArgumentCount fname (arguments function) (length arg_exprs)), w)
        \<and> is_ArityError (WrongArgumentCount fname (arguments function) (length arg_exprs)))
     \<and> (length args \<noteq> length (arguments function) \<longrightarrow>
        call_function (Suc fuel) builtins functions fname args w
          = Some (Inl (ExpectsArguments fname (length (arguments function)) (length args)), w)
        \<and> is_ArityError (ExpectsArguments fname (length (arguments function)) (length args)))
     \<and> (length arg_exprs' = length (arguments function) \<longrightarrow>
        execute_item (Suc (Suc fuel)) builtins functions (CallNode fname arg_exprs') variables w
          = bindw (execute_arguments (Suc fuel) builtins functions arg_exprs' [] variables w)
              (\<lambda>(args, variables') w'.
                 bindw (run_body fuel builtins functions function
                          (bind_arguments (arguments function) args) w')
                   (\<lambda>v. ret (v, variables')))
        \<and> (\<forall>w'. execute_item (Suc (Suc fuel)) builtins functions (CallNode fname arg_exprs')
                    variables w
                \<noteq> Some (Inl (WrongArgumentCount fname (arguments function)
                                (length arg_exprs')), w'))
        \<and> (\<forall>w'. execute_item (Suc (Suc fuel)) builtins functions (CallNode fname arg_exprs')
                    variables w
                \<noteq> Some (Inl (ExpectsArguments fname (length (arguments function))
                                (length arg_exprs')), w')))
     \<and> (length args' = length (arguments function) \<longrightarrow>
        call_function (Suc fuel) builtins functions fname args' w
          = run_body fuel builtins functions function
              (bind_arguments (arguments function) args') w
        \<and> (\<forall>w'. call_function (Suc fuel) builtins functions fname args' w
                \<noteq> Some (Inl (ExpectsArguments fname (length (arguments function))
                                (length args')), w')))"
proof (intro conjI impI allI)
  assume "length arg_exprs \<noteq> length (arguments function)"
  with assms
  show "execute_item (Suc fuel) builtins functions (CallNode fname arg_exprs) variables w
          = Some (Inl (WrongArgumentCount fname (arguments function) (length arg_exprs)), w)"
    by (simp add: raise_def)
next
  show "is_ArityError (WrongArgumentCount fname (arguments function) (length arg_exprs))"
    by simp
next
  assume "length args \<noteq> length (arguments function)"
  with assms
  show "call_function (Suc fuel) builtins functions fname args w
          = Some (Inl (ExpectsArguments fname (length (arguments function)) (length args)), w)"
    by (simp add: raise_def)
next
  show "is_ArityError (ExpectsArguments fname (length (arguments function)) (length args))"
    by simp
next
  assume "length arg_exprs' = length (arguments function)"
  with assms
  show "execute_item (Suc (Suc fuel)) builtins functions (CallNode fname arg_exprs') variables w
          = bindw (execute_arguments (Suc fuel) builtins functions arg_exprs' [] variables w)
              (\<lambda>(args, variables') w'.
                 bindw (run_body fuel builtins functions function
                          (bind_arguments (arguments function) args) w')
                   (\<lambda>v. ret (v, variables')))"
    by (rule call_matching)
next
  fix w'
  assume l: "length arg_exprs' = length (arguments function)"
  show "execute_item (Suc (Suc fuel)) builtins functions (CallNode fname arg_exprs') variables w
          \<noteq> Some (Inl (WrongArgumentCount fname (arguments function) (length arg_exprs')), w')"
  proof
    assume "execute_item (Suc (Suc fuel)) builtins functions (CallNode fname arg_exprs')
              variables w
            = Some (Inl (WrongArgumentCount fname (arguments function) (length arg_exprs')), w')"
    from execute_item_error[OF this] l show False by simp
  qed
next
  fix w'
  assume l: "length arg_exprs' = length (arguments function)"
  show "execute_item (Suc (Suc fuel)) builtins functions (CallNode fname arg_exprs') variables w
          \<noteq> Some (Inl (ExpectsArguments fname (length (arguments function))
                          (length arg_exprs')), w')"
  proof
    assume "execute_item (Suc (Suc fuel)) builtins functions (CallNode fname arg_exprs')
              variables w
            = Some (Inl (ExpectsArguments fname (length (arguments function))
                          (length arg_exprs')), w')"
    from execute_item_error[OF this] l show False by simp
  qed
next
  assume "length args' = length (arguments function)"
  with assms
  show "call_function (Suc fuel) builtins functions fname args' w
          = run_body fuel builtins functions function
              (bind_arguments (arguments function) args') w"
    by (rule call_function_runs_body)
next
  fix w'
  assume l: "length args' = length (arguments function)"
  show "call_function (Suc fuel) builtins functions fname args' w
          \<noteq> Some (Inl (ExpectsArguments fname (length (arguments function)) (length args')), w')"
  proof
    assume "call_function (Suc fuel) builtins functions fname args' w
            = Some (Inl (ExpectsArguments fname (length (arguments function)) (length args')), w')"
    from call_function_error[OF this] l show False by simp
  qed
qed

theorem arity_enforcement_witness:
  "example_table ''second'' = Some (DefinitionNode ''second'' [''a'', ''b''] (VariableReferenceNode ''b''))
   \<and> execute_item (Suc 0) example_builtins example_table
        (CallNode ''second'' [IntegerNode 1]) Map.empty []
     = Some (Inl (WrongArgumentCount ''second'' [''a'', ''b''] 1), [])
   \<and> call_function (Suc 0) example_builtins example_table ''second''
        [VInt 1, VInt 2, VInt 3] []
     = Some (Inl (ExpectsArguments ''second'' 2 3), [])
   \<and> execute_item (Suc (Suc 3)) example_builtins example_table
        (CallNode ''second'' [IntegerNode 1, IntegerNode 2]) Map.empty []
     = Some (Inr (VInt 2, Map.empty), [])
   \<and> call_function (Suc 3) example_builtins example_table ''second'' [VInt 1, VInt 2] []
     = Some (Inr (VInt 2), [])"
proof -
  have h: "example_table ''second''
           = Some (DefinitionNode ''second'' [''a'', ''b''] (VariableReferenceNode ''b''))"
    by (simp add: example_table_def)
  from arity_enforcement[of example_table "''second''"
      "DefinitionNode ''second'' [''a'', ''b''] (VariableReferenceNode ''b'')"
      "[IntegerNode 1]" 0 example_builtins Map.empty "[]"
      "[VInt 1, VInt 2, VInt 3]" "[IntegerNode 1, IntegerNode 2]" "[VInt 1, VInt 2]", OF h]
    arity_enforcement[of example_table "''second''"
      "DefinitionNode ''second'' [''a'', ''b''] (VariableReferenceNode ''b'')"
      "[IntegerNode 1]" 3 example_builtins Map.empty "[]"
      "[VInt 1, VInt 2, VInt 3]" "[IntegerNode 1, IntegerNode 2]" "[VInt 1, VInt 2]", OF h]
  show ?thesis
    by (simp add: run_simps example_table_def eval_nat_numeral)
qed

subsection \<open>Scopes\<close>

text \<open>
  Claim C7. A call of a function of the table with as many arguments as parameters runs
  the body in variables that are new: they hold the parameters, each bound to its
  argument (the last one of a name that is repeated), and nothing else. What the caller
  holds does not reach the callee: a call without arguments gives the same outcome from
  any variables of the caller as from none, and gives the caller its variables back as
  they were.
\<close>

theorem scope_isolation:
  assumes "functions g = Some callee" and "length args = length (arguments callee)"
  shows "call_function (Suc fuel) builtins functions g args w
           = run_body fuel builtins functions callee (bind_arguments (arguments callee) args) w
         \<and> bind_arguments (arguments callee) args = map_of (rev (zip (arguments callee) args))
         \<and> dom (bind_arguments (arguments callee) args) = set (arguments callee)
         \<and> execute_item fuel' builtins functions (CallNode g []) variables w
             = keep_variables variables
                 (execute_item fuel' builtins functions (CallNode g []) Map.empty w)"
proof (intro conjI)
  show "call_function (Suc fuel) builtins functions g args w
           = run_body fuel builtins functions callee (bind_arguments (arguments callee) args) w"
    using assms by (rule call_function_runs_body)
  show "bind_arguments (arguments callee) args = map_of (rev (zip (arguments callee) args))"
    by (rule bind_arguments_map_of)
  show "dom (bind_arguments (arguments callee) args) = set (arguments callee)"
    using assms(2) by (rule dom_bind_arguments)
  show "execute_item fuel' builtins functions (CallNode g []) variables w
             = keep_variables variables
                 (execute_item fuel' builtins functions (CallNode g []) Map.empty w)"
    by (rule call_without_arguments)
qed

theorem scope_isolation_witness:
  "example_table ''g'' = Some (DefinitionNode ''g'' [] (VariableReferenceNode ''x''))
   \<and> length ([] :: val list) = length (arguments (DefinitionNode ''g'' [] (VariableReferenceNode ''x'')))
   \<and> call_function (Suc 3) example_builtins example_table ''g'' [] []
     = Some (Inl (KeyError (VStr ''x'')), [])
   \<and> execute_item 5 example_builtins example_table (CallNode ''g'' []) [''x'' \<mapsto> VInt 1] []
     = Some (Inl (KeyError (VStr ''x'')), [])
   \<and> call_function 10 example_builtins example_table ''f'' [] []
     = Some (Inl (KeyError (VStr ''x'')), [])"
proof -
  have h: "example_table ''g'' = Some (DefinitionNode ''g'' [] (VariableReferenceNode ''x''))"
    by (simp add: example_table_def)
  have l: "length ([] :: val list)
           = length (arguments (DefinitionNode ''g'' [] (VariableReferenceNode ''x'')))"
    by simp
  from scope_isolation[of example_table "''g''"
      "DefinitionNode ''g'' [] (VariableReferenceNode ''x'')" "[]" 3 example_builtins "[]" 5
      "[''x'' \<mapsto> VInt 1]", OF h l]
  show ?thesis
    by (simp add: run_simps example_table_def eval_nat_numeral)
qed

subsection \<open>Arithmetic runs\<close>

text \<open>
  \<^verbatim>\<open>execute_math\<close> on its own is the fold of the specification: on a first operand and
  then operators and operands in turn, with every operand resolved in the variables, it
  gives what the fold from the left gives on the values.
\<close>

lemma execute_math_loop_left_fold:
  "list_all2 (\<lambda>(operator, a) (operator', v).
       operator' = operator \<and> operand a variables = Inr v) steps vals \<Longrightarrow>
   execute_math_loop accumulator
       (concat (map (\<lambda>(operator, a). [OperatorNode operator, a]) steps)) variables
     = left_fold accumulator vals"
proof (induction steps arbitrary: accumulator vals)
  case Nil
  then show ?case by simp
next
  case (Cons step steps)
  obtain operator a where step: "step = (operator, a)" by (cases step)
  from Cons.prems step obtain v vals' where
    vals: "vals = (operator, v) # vals'" and
    a: "operand a variables = Inr v" and
    rest: "list_all2 (\<lambda>(operator, a) (operator', v).
             operator' = operator \<and> operand a variables = Inr v) steps vals'"
    by (auto simp: list_all2_Cons1)
  show ?case
    by (simp add: step vals a operator_node_to_function_def Cons.IH[OF rest]
        split: sum.splits)
qed

lemma execute_math_left_fold:
  assumes "operand a1 variables = Inr v1"
    and "list_all2 (\<lambda>(operator, a) (operator', v).
           operator' = operator \<and> operand a variables = Inr v) steps vals"
  shows "execute_math (arithmetic_run a1 steps) variables = left_fold v1 vals"
  using assms
  by (simp add: execute_math_def arithmetic_run_def execute_math_loop_left_fold)

lemma is_math_expression_Cons: "is_math_expression (x # expression) = Inl TypeError"
  by (simp add: isinstance_of_list_def)

text \<open>
  Claim C1, evaluated where it fails. \<^verbatim>\<open>is_math_expression\<close> gives \<^verbatim>\<open>isinstance\<close> a list
  of classes, so it raises \<^verbatim>\<open>TypeError\<close> on every list that is not empty: an arithmetic
  run that is the right-hand side of an assignment, an argument of a call or an item of
  its own raises \<^verbatim>\<open>TypeError\<close>, and \<^verbatim>\<open>execute_math\<close> is not reached. A run that is the whole
  body of a function is run item by item and gives its last operand. \<^verbatim>\<open>execute_math\<close>
  itself gives 20, 5 and 3.5 on the three runs of the claim.
\<close>

theorem arithmetic_run_raises:
  "execute_item (Suc fuel) builtins functions (ListNode (x # expression)) variables w
     = Some (Inl TypeError, w)
   \<and> execute_item (Suc fuel) builtins functions
        (VariableDeclarationNode ident (ListNode (x # expression))) variables w
     = Some (Inl TypeError, w)
   \<and> run_body (Suc (Suc (Suc (Suc (Suc (Suc fuel)))))) builtins functions
        (DefinitionNode ''main'' []
          (ListNode [IntegerNode 2, OperatorNode Operator.ADD, IntegerNode 3,
                     OperatorNode Operator.MULTIPLY, IntegerNode 4])) Map.empty w
     = Some (Inr (VInt 4), w)
   \<and> run_file 20 example_builtins program_arithmetic [] = Some (Inl TypeError, [])
   \<and> execute_math [IntegerNode 2, OperatorNode Operator.ADD, IntegerNode 3,
                    OperatorNode Operator.MULTIPLY, IntegerNode 4] variables
     = Inr (VInt 20)
   \<and> execute_math [IntegerNode 10, OperatorNode Operator.SUBTRACT, IntegerNode 4,
                    OperatorNode Operator.SUBTRACT, IntegerNode 1] variables
     = Inr (VInt 5)
   \<and> execute_math [IntegerNode 7, OperatorNode Operator.DIVIDE, IntegerNode 2] variables
     = Inr (VFloat 3.5)"
proof -
  have p: "parse_source 20 program_arithmetic
     = Some (Inr ([DefinitionNode ''main'' []
                    (VariableDeclarationNode ''x''
                      (ListNode [IntegerNode 2, OperatorNode Operator.ADD, IntegerNode 3,
                                 OperatorNode Operator.MULTIPLY, IntegerNode 4]))], []))"
    by code_simp
  have r: "run_file 20 example_builtins program_arithmetic [] = Some (Inl TypeError, [])"
    by (simp only: run_file_def p option.case sum.case prod.case)
       (simp add: begin_execution_def handle_definition_def run_simps eval_nat_numeral)
  show ?thesis
    by (simp add: r run_simps)
qed

subsection \<open>Assignments\<close>

text \<open>
  Claim C2, evaluated where it fails. An assignment whose right-hand side is a variable
  reference binds the name to the \<^verbatim>\<open>value\<close> of the node, which is the name of the
  referenced variable as a string, and not to the value of that variable: with \<open>x\<close> bound
  to 5, \<^verbatim>\<open>y = x\<close> binds \<open>y\<close> to the string \<^verbatim>\<open>x\<close>, where the reference \<open>x\<close>, evaluated in the
  same variables, gives 5.
\<close>

theorem assignment_of_reference_binds_name:
  "execute_item (Suc fuel) builtins functions
       (VariableDeclarationNode ident (VariableReferenceNode v)) variables w
     = Some (Inr (VNone, variables(ident \<mapsto> VStr v)), w)
   \<and> execute_item (Suc fuel) builtins functions
        (VariableDeclarationNode ''y'' (VariableReferenceNode ''x'')) [''x'' \<mapsto> VInt 5] w
     = Some (Inr (VNone, [''x'' \<mapsto> VInt 5, ''y'' \<mapsto> VStr ''x'']), w)
   \<and> execute_item (Suc fuel) builtins functions (VariableReferenceNode ''x'')
        [''x'' \<mapsto> VInt 5] w
     = Some (Inr (VInt 5, [''x'' \<mapsto> VInt 5]), w)"
  by (simp add: run_simps)

subsection \<open>Literals\<close>

text \<open>
  Claim C3, evaluated where it fails. A literal is returned only when its value is true
  for \<^verbatim>\<open>if value:\<close>. The integer literal 0 and the empty string literal are not, and fall
  through to the failure "No way to execute"; every other integer and string literal
  gives its value.
\<close>

theorem zero_literal_unevaluable:
  "execute_item (Suc fuel) builtins functions (IntegerNode 0) variables w
     = Some (Inl (NoWayToExecute (IntegerNode 0)), w)
   \<and> execute_item (Suc fuel) builtins functions (IntegerNode i) variables w
     = (if i = 0 then Some (Inl (NoWayToExecute (IntegerNode i)), w)
        else Some (Inr (VInt i, variables), w))
   \<and> execute_item (Suc fuel) builtins functions (StringNode s) variables w
     = (if s = [] then Some (Inl (NoWayToExecute (StringNode s)), w)
        else Some (Inr (VStr s, variables), w))
   \<and> run_file 20 example_builtins program_print_zero []
     = Some (Inl (NoWayToExecute (IntegerNode 0)), [])"
proof -
  have p: "parse_source 20 program_print_zero
     = Some (Inr ([DefinitionNode ''main'' [] (CallNode ''print'' [IntegerNode 0])], []))"
    by code_simp
  have r: "run_file 20 example_builtins program_print_zero []
     = Some (Inl (NoWayToExecute (IntegerNode 0)), [])"
    by (simp only: run_file_def p option.case sum.case prod.case)
       (simp add: begin_execution_def handle_definition_def run_simps example_builtins_def
          eval_nat_numeral)
  show ?thesis
    by (simp add: r run_simps)
qed

subsection \<open>Calls of the host\<close>

text \<open>
  A call that is an item of its own, or an argument of a call, and whose name is not in
  the table goes to the host: without a callable of that name it fails at once, with one
  the arguments are evaluated and handed to the callable.
\<close>

lemma call_delegates_to_host:
  assumes "functions fname = None"
  shows "execute_item (Suc fuel) builtins functions (CallNode fname arg_exprs) variables w
     = (case builtins fname of
          None \<Rightarrow> Some (Inl (CouldNotFindFunction fname), w)
        | Some function \<Rightarrow>
            bindw (execute_arguments fuel builtins functions arg_exprs [] variables w)
              (\<lambda>(args, variables') w'.
                 bindw (host_call function args w') (\<lambda>v. ret (v, variables'))))"
  using assms by (simp add: raise_def split: option.splits)

text \<open>
  Claim C6, evaluated where it fails. A call that is the right-hand side of an assignment
  goes to \<^verbatim>\<open>call_function\<close> without a look at the host: when its name is not in the table,
  the arguments are evaluated and the assignment fails with "Function ... does not
  exist", whatever the host has. With \<^verbatim>\<open>len\<close> in the host, \<^verbatim>\<open>x = len("ab")\<close> fails, where the
  statement \<^verbatim>\<open>len("ab")\<close> runs.
\<close>

theorem assignment_call_skips_host:
  "execute_item (Suc (Suc fuel)) builtins Map.empty
       (VariableDeclarationNode ident (CallNode fname arg_exprs)) variables w
     = bindw (execute_arguments (Suc fuel) builtins Map.empty arg_exprs [] variables w)
         (\<lambda>(args, variables') w'. Some (Inl (FunctionDoesNotExist fname), w'))
   \<and> example_builtins ''len'' = Some host_len
   \<and> run_file 20 example_builtins program_assign_len []
     = Some (Inl (FunctionDoesNotExist ''len''), [])
   \<and> run_file 20 example_builtins program_call_len [] = Some (Inr (), [])"
proof -
  have p1: "parse_source 20 program_assign_len
     = Some (Inr ([DefinitionNode ''main'' []
                    (VariableDeclarationNode ''x'' (CallNode ''len'' [StringNode ''ab'']))], []))"
    by code_simp
  have p2: "parse_source 20 program_call_len
     = Some (Inr ([DefinitionNode ''main'' [] (CallNode ''len'' [StringNode ''ab''])], []))"
    by code_simp
  have r1: "run_file 20 example_builtins program_assign_len []
     = Some (Inl (FunctionDoesNotExist ''len''), [])"
    by (simp only: run_file_def p1 option.case sum.case prod.case)
       (simp add: begin_execution_def handle_definition_def run_simps example_builtins_def
          eval_nat_numeral)
  have r2: "run_file 20 example_builtins program_call_len [] = Some (Inr (), [])"
    by (simp only: run_file_def p2 option.case sum.case prod.case)
       (simp add: begin_execution_def handle_definition_def run_simps example_builtins_def
          host_len_def eval_nat_numeral)
  have g: "execute_item (Suc (Suc fuel)) builtins Map.empty
       (VariableDeclarationNode ident (CallNode fname arg_exprs)) variables w
     = bindw (execute_arguments (Suc fuel) builtins Map.empty arg_exprs [] variables w)
         (\<lambda>(args, variables') w'. Some (Inl (FunctionDoesNotExist fname), w'))"
    by (simp add: raise_def bindw_simps del: execute_arguments.simps)
  have b: "example_builtins ''len'' = Some host_len"
    by (simp add: example_builtins_def)
  from g b r1 r2 show ?thesis by (intro conjI)
qed

end
